theory Spec2Isabelle
  imports Complex_Main "HOL-Library.Word" "HOL-Library.Sublist" "HOL-Library.Log_Nat"
begin

section \<open>JavaScript strings\<close>

text \<open>
  A JavaScript string is a sequence of UTF-16 code units. String literals of the source
  that are plain ASCII are written \<open>js ''...''\<close>; a literal with a character outside
  ASCII spells that code unit out.
\<close>

type_synonym code_unit = "16 word"
type_synonym jsstring = "code_unit list"
type_synonym byte = "8 word"

definition js :: "string \<Rightarrow> jsstring" where
  "js s = map of_char s"

text \<open>\<open>String.prototype.trim\<close>: strips WhiteSpace and LineTerminator code units
  from both ends.\<close>

definition is_js_space :: "code_unit \<Rightarrow> bool" where
  "is_js_space c \<longleftrightarrow>
     c \<in> {0x09, 0x0A, 0x0B, 0x0C, 0x0D, 0x20, 0xA0, 0x1680, 0x2028, 0x2029, 0x202F,
          0x205F, 0x3000, 0xFEFF} \<or> (0x2000 \<le> c \<and> c \<le> 0x200A)"

definition trim :: "jsstring \<Rightarrow> jsstring" where
  "trim s = rev (dropWhile is_js_space (rev (dropWhile is_js_space s)))"

section \<open>JavaScript numbers\<close>

text \<open>
  A JavaScript number is an IEEE 754 double. A finite double is modelled by its exact
  value, a rational; the result of an arithmetic operation is the exact result rounded
  to the nearest double, ties to the even significand (\<open>round_to_double\<close>), with
  overflow to an infinity. The sign of zero is not kept: nothing in the modelled code
  tells \<open>-0\<close> from \<open>0\<close>. A decimal literal such as \<open>0.15\<close>, in the source or in a
  JSON body, denotes \<open>round_to_double (15 / 100)\<close>.
\<close>

datatype jsnumber = Finite rat | PosInfinity | NegInfinity | NaN

definition pow2 :: "int \<Rightarrow> rat" where
  "pow2 k = (if 0 \<le> k then 2 ^ nat k else 1 / 2 ^ nat (- k))"

text \<open>For \<open>a > 0\<close>, the \<open>e\<close> with \<open>2\<^sup>e \<le> a < 2\<^sup>e\<^sup>+\<^sup>1\<close>.\<close>

definition binary_exponent :: "rat \<Rightarrow> int" where
  "binary_exponent a =
     (if 1 \<le> a then int (floorlog 2 (nat \<lfloor>a\<rfloor>)) - 1
      else - int (floorlog 2 (nat (\<lceil>1 / a\<rceil> - 1))))"

definition round_half_even :: "rat \<Rightarrow> int" where
  "round_half_even x =
     (let m = \<lfloor>x\<rfloor>; r = x - of_int m
      in if r < 1 / 2 then m else if 1 / 2 < r then m + 1 else if even m then m else m + 1)"

definition round_to_double :: "rat \<Rightarrow> jsnumber" where
  "round_to_double x =
     (if x = 0 then Finite 0
      else let a = \<bar>x\<bar>;
               u = pow2 (max (binary_exponent a) (- 1022) - 52);
               y = of_int (round_half_even (a / u)) * u
           in if pow2 1024 \<le> y then (if x < 0 then NegInfinity else PosInfinity)
              else Finite (if x < 0 then - y else y))"

fun js_times :: "jsnumber \<Rightarrow> jsnumber \<Rightarrow> jsnumber" where
  "js_times (Finite a) (Finite b) = round_to_double (a * b)"
| "js_times (Finite a) PosInfinity =
     (if a = 0 then NaN else if a < 0 then NegInfinity else PosInfinity)"
| "js_times (Finite a) NegInfinity =
     (if a = 0 then NaN else if a < 0 then PosInfinity else NegInfinity)"
| "js_times PosInfinity (Finite b) =
     (if b = 0 then NaN else if b < 0 then NegInfinity else PosInfinity)"
| "js_times NegInfinity (Finite b) =
     (if b = 0 then NaN else if b < 0 then PosInfinity else NegInfinity)"
| "js_times PosInfinity PosInfinity = PosInfinity"
| "js_times NegInfinity NegInfinity = PosInfinity"
| "js_times PosInfinity NegInfinity = NegInfinity"
| "js_times NegInfinity PosInfinity = NegInfinity"
| "js_times NaN y = NaN"
| "js_times x NaN = NaN"

fun js_plus :: "jsnumber \<Rightarrow> jsnumber \<Rightarrow> jsnumber" where
  "js_plus (Finite a) (Finite b) = round_to_double (a + b)"
| "js_plus (Finite a) PosInfinity = PosInfinity"
| "js_plus (Finite a) NegInfinity = NegInfinity"
| "js_plus PosInfinity (Finite b) = PosInfinity"
| "js_plus NegInfinity (Finite b) = NegInfinity"
| "js_plus PosInfinity PosInfinity = PosInfinity"
| "js_plus NegInfinity NegInfinity = NegInfinity"
| "js_plus PosInfinity NegInfinity = NaN"
| "js_plus NegInfinity PosInfinity = NaN"
| "js_plus NaN y = NaN"
| "js_plus x NaN = NaN"

text \<open>
  Counts (seats, passes, capacities) are modelled as integers; as numbers they are the
  doubles of the same value, exact up to \<open>2\<^sup>5\<^sup>3\<close>. An absent operand
  (\<open>undefined\<close>) is \<open>NaN\<close> in arithmetic.
\<close>

definition Number_of_int :: "int \<Rightarrow> jsnumber" where
  "Number_of_int i = round_to_double (of_int i)"

definition Number_of_int_opt :: "int option \<Rightarrow> jsnumber" where
  "Number_of_int_opt i = (case i of None \<Rightarrow> NaN | Some n \<Rightarrow> Number_of_int n)"

text \<open>Truthiness: \<open>undefined\<close>, \<open>0\<close>, \<open>NaN\<close> and the empty string are falsy.\<close>

definition truthy_number :: "jsnumber option \<Rightarrow> bool" where
  "truthy_number x = (case x of None \<Rightarrow> False | Some NaN \<Rightarrow> False | Some (Finite r) \<Rightarrow> r \<noteq> 0
                      | Some _ \<Rightarrow> True)"

definition truthy_int :: "int option \<Rightarrow> bool" where
  "truthy_int x = (case x of None \<Rightarrow> False | Some n \<Rightarrow> n \<noteq> 0)"

definition truthy_string :: "jsstring option \<Rightarrow> bool" where
  "truthy_string x = (case x of None \<Rightarrow> False | Some s \<Rightarrow> s \<noteq> [])"

text \<open>Decimal text of an integer, as a template literal and \<open>String(n)\<close> print it.\<close>

fun digits_of :: "nat \<Rightarrow> jsstring" where
  "digits_of n =
     (if n < 10 then [of_nat (48 + n)] else digits_of (n div 10) @ [of_nat (48 + n mod 10)])"

declare digits_of.simps [simp del]

definition String_of_int :: "int \<Rightarrow> jsstring" where
  "String_of_int i = (if i < 0 then js ''-'' @ digits_of (nat (- i)) else digits_of (nat i))"

text \<open>Interpolation of a possibly absent value into a template literal.\<close>

definition template_string :: "jsstring option \<Rightarrow> jsstring" where
  "template_string x = (case x of None \<Rightarrow> js ''undefined'' | Some s \<Rightarrow> s)"

definition template_int :: "int option \<Rightarrow> jsstring" where
  "template_int x = (case x of None \<Rightarrow> js ''undefined'' | Some n \<Rightarrow> String_of_int n)"

text \<open>\<open>padStart\<close> and \<open>padEnd\<close> with the default filler, a space.\<close>

definition padStart :: "nat \<Rightarrow> jsstring \<Rightarrow> jsstring" where
  "padStart n s = replicate (n - length s) 0x20 @ s"

definition padEnd :: "nat \<Rightarrow> jsstring \<Rightarrow> jsstring" where
  "padEnd n s = s @ replicate (n - length s) 0x20"

text \<open>
  \<open>Number.prototype.toFixed(f)\<close>, step by step as ECMA-262 gives it. For a finite
  value of magnitude at least \<open>10\<^sup>2\<^sup>1\<close> the result is that of \<open>Number::toString\<close>,
  which is the host's: it is the parameter \<open>toString\<close>.
\<close>

definition toFixed :: "(rat \<Rightarrow> jsstring) \<Rightarrow> nat \<Rightarrow> jsnumber \<Rightarrow> jsstring" where
  "toFixed toString f x =
     (case x of
        NaN \<Rightarrow> js ''NaN''
      | PosInfinity \<Rightarrow> js ''Infinity''
      | NegInfinity \<Rightarrow> js ''-Infinity''
      | Finite r \<Rightarrow>
          (let s = (if r < 0 then js ''-'' else []);
               a = \<bar>r\<bar>
           in if 10 ^ 21 \<le> a then s @ toString a
              else
                (let n = \<lfloor>a * 10 ^ f + 1 / 2\<rfloor>;
                     m = digits_of (nat n);
                     m = (if f \<noteq> 0 then
                            (let k = length m;
                                 m = (if k \<le> f then replicate (f + 1 - k) 0x30 @ m else m);
                                 k = (if k \<le> f then f + 1 else k)
                             in take (k - f) m @ js ''.'' @ drop (k - f) m)
                          else m)
                 in s @ m)))"

section \<open>The host: dates, locale and number printing\<close>

text \<open>
  A \<open>Date\<close> holds a time value, milliseconds since the epoch, or is invalid. What
  \<open>toLocaleDateString('fr-FR')\<close> and
  \<open>toLocaleTimeString('fr-FR', {hour: '2-digit', minute: '2-digit'})\<close> print depends on
  the host's time zone and locale data, and the last digits of \<open>Number::toString\<close> are
  left to the implementation by ECMA-262, as is the date a string denotes beyond the
  standard format (\<open>Date.parse\<close>): the four are parameters of the formatters, the record
  \<open>host\<close>. The clock (\<open>new Date()\<close>) is a separate argument of the one function that
  reads it.
\<close>

datatype jsdate = TimeValue int | InvalidDate

record host =
  Number_toString :: "rat \<Rightarrow> jsstring"
  Date_parse :: "jsstring \<Rightarrow> jsdate"
  toLocaleDateString :: "jsdate \<Rightarrow> jsstring"
  toLocaleTimeString :: "jsdate \<Rightarrow> jsstring"

text \<open>
  The interfaces declare \<open>createdAt\<close> a \<open>Date\<close>, but the body of a request is parsed
  JSON, which has no dates: the field holds whatever value the client sent, as a rule
  the text of \<open>toISOString()\<close>. It is kept as that value. An array or an object is given
  by the string it converts to (\<open>ToPrimitive\<close>), and is truthy whatever that string.
\<close>

datatype jsvalue =
    JUndefined
  | JNull
  | JBoolean bool
  | JNumber jsnumber
  | JString jsstring
  | JObject jsstring

definition truthy_value :: "jsvalue \<Rightarrow> bool" where
  "truthy_value v =
     (case v of
        JUndefined \<Rightarrow> False
      | JNull \<Rightarrow> False
      | JBoolean b \<Rightarrow> b
      | JNumber n \<Rightarrow> truthy_number (Some n)
      | JString s \<Rightarrow> s \<noteq> []
      | JObject s \<Rightarrow> True)"

text \<open>\<open>TimeClip\<close>: a time value is an integer of at most \<open>8.64 \<times> 10\<^sup>1\<^sup>5\<close> in magnitude.\<close>

definition TimeClip :: "jsnumber \<Rightarrow> jsdate" where
  "TimeClip x =
     (case x of
        Finite r \<Rightarrow>
          if \<bar>r\<bar> > 8640000000000000 then InvalidDate
          else TimeValue (if r < 0 then \<lceil>r\<rceil> else \<lfloor>r\<rfloor>)
      | _ \<Rightarrow> InvalidDate)"

text \<open>\<open>new Date(v)\<close>: a string is parsed, any other value is converted to a number
  (\<open>undefined\<close> to \<open>NaN\<close>, \<open>null\<close> and \<open>false\<close> to 0, \<open>true\<close> to 1) and clipped.\<close>

definition new_Date :: "host \<Rightarrow> jsvalue \<Rightarrow> jsdate" where
  "new_Date h v =
     (case v of
        JUndefined \<Rightarrow> InvalidDate
      | JNull \<Rightarrow> TimeValue 0
      | JBoolean b \<Rightarrow> TimeValue (if b then 1 else 0)
      | JNumber n \<Rightarrow> TimeClip n
      | JString s \<Rightarrow> Date_parse h s
      | JObject s \<Rightarrow> Date_parse h s)"

subsection \<open>A host in the time zone UTC\<close>

text \<open>Year, month and day of a day number counted from 1970-01-01 (proleptic Gregorian
  calendar).\<close>

definition civil_from_days :: "int \<Rightarrow> int \<times> int \<times> int" where
  "civil_from_days z0 =
     (let z = z0 + 719468;
          era = z div 146097;
          doe = z - era * 146097;
          yoe = (doe - doe div 1460 + doe div 36524 - doe div 146096) div 365;
          doy = doe - (365 * yoe + yoe div 4 - yoe div 100);
          mp = (5 * doy + 2) div 153;
          d = doy - (153 * mp + 2) div 5 + 1;
          m = (if mp < 10 then mp + 3 else mp - 9);
          y = yoe + era * 400 + (if m \<le> 2 then 1 else 0)
      in (y, m, d))"

text \<open>The day number of a date; a day beyond the end of the month counts on into the
  next one.\<close>

definition days_from_civil :: "int \<Rightarrow> int \<Rightarrow> int \<Rightarrow> int" where
  "days_from_civil y0 m d =
     (let y = (if m \<le> 2 then y0 - 1 else y0);
          era = y div 400;
          yoe = y - era * 400;
          doy = (153 * (if m > 2 then m - 3 else m + 9) + 2) div 5 + d - 1;
          doe = yoe * 365 + yoe div 4 - yoe div 100 + doy
      in era * 146097 + doe - 719468)"

text \<open>
  \<open>Date.parse\<close> of this host recognises the date-time string format of ECMA-262,
  \<open>YYYY-MM-DDTHH:mm:ss.sssZ\<close> with its shorter forms, the offsets \<open>\<plusminus>HH:mm\<close> and the
  expanded years \<open>\<plusminus>YYYYYY\<close>, and nothing else: every other string is an invalid date.
  A date alone is UTC; a date and time without offset is local time, here UTC as well.
\<close>

definition is_digit :: "code_unit \<Rightarrow> bool" where
  "is_digit c \<longleftrightarrow> 0x30 \<le> c \<and> c \<le> 0x39"

definition decimal_value :: "jsstring \<Rightarrow> int" where
  "decimal_value s = foldl (\<lambda>n c. 10 * n + (int (unat c) - 48)) 0 s"

text \<open>A field of \<open>n\<close> digits at the front of a string, and one after a separator:
  the value and the rest of the string.\<close>

definition digits_at :: "nat \<Rightarrow> jsstring \<Rightarrow> (int \<times> jsstring) option" where
  "digits_at n s =
     (if n \<le> length s \<and> list_all is_digit (take n s)
      then Some (decimal_value (take n s), drop n s) else None)"

definition field_after :: "code_unit \<Rightarrow> nat \<Rightarrow> jsstring \<Rightarrow> (int \<times> jsstring) option" where
  "field_after sep n s =
     (case s of [] \<Rightarrow> None | c # cs \<Rightarrow> if c = sep then digits_at n cs else None)"

definition parse_year :: "jsstring \<Rightarrow> (int \<times> jsstring) option" where
  "parse_year s =
     (case s of
        [] \<Rightarrow> None
      | c # cs \<Rightarrow>
          if c = 0x2B then digits_at 6 cs
          else if c = 0x2D then
            (case digits_at 6 cs of
               None \<Rightarrow> None
             | Some (y, r) \<Rightarrow> if y = 0 then None else Some (- y, r))
          else digits_at 4 s)"

text \<open>The day number of the date at the front of a string.\<close>

definition parse_date :: "jsstring \<Rightarrow> (int \<times> jsstring) option" where
  "parse_date s =
     (case parse_year s of
        None \<Rightarrow> None
      | Some (y, r1) \<Rightarrow>
          (case field_after 0x2D 2 r1 of
             None \<Rightarrow> Some (days_from_civil y 1 1, r1)
           | Some (m, r2) \<Rightarrow>
               if m < 1 \<or> 12 < m then None
               else
                 (case field_after 0x2D 2 r2 of
                    None \<Rightarrow> Some (days_from_civil y m 1, r2)
                  | Some (d, r3) \<Rightarrow>
                      if d < 1 \<or> 31 < d then None else Some (days_from_civil y m d, r3))))"

text \<open>The milliseconds since midnight of the time at the front of a string; \<open>24:00\<close> is
  the end of the day.\<close>

definition time_of :: "int \<Rightarrow> int \<Rightarrow> int \<Rightarrow> int \<Rightarrow> jsstring \<Rightarrow> (int \<times> jsstring) option" where
  "time_of hh mi ss ms r =
     (if (hh \<le> 23 \<or> hh = 24 \<and> mi = 0 \<and> ss = 0 \<and> ms = 0) \<and> mi \<le> 59 \<and> ss \<le> 59
      then Some (hh * 3600000 + mi * 60000 + ss * 1000 + ms, r) else None)"

definition parse_time :: "jsstring \<Rightarrow> (int \<times> jsstring) option" where
  "parse_time s =
     (case digits_at 2 s of
        None \<Rightarrow> None
      | Some (hh, r1) \<Rightarrow>
          (case field_after 0x3A 2 r1 of
             None \<Rightarrow> None
           | Some (mi, r2) \<Rightarrow>
               (case field_after 0x3A 2 r2 of
                  None \<Rightarrow> time_of hh mi 0 0 r2
                | Some (ss, r3) \<Rightarrow>
                    (case field_after 0x2E 3 r3 of
                       None \<Rightarrow> time_of hh mi ss 0 r3
                     | Some (ms, r4) \<Rightarrow> time_of hh mi ss ms r4))))"

text \<open>The offset at the end of a string, in minutes east of UTC.\<close>

definition parse_offset :: "jsstring \<Rightarrow> int option" where
  "parse_offset s =
     (case s of
        [] \<Rightarrow> Some 0
      | c # cs \<Rightarrow>
          if c = 0x5A then (if cs = [] then Some 0 else None)
          else if c = 0x2B \<or> c = 0x2D then
            (case digits_at 2 cs of
               None \<Rightarrow> None
             | Some (hh, r) \<Rightarrow>
                 (case field_after 0x3A 2 r of
                    None \<Rightarrow> None
                  | Some (mm, r') \<Rightarrow>
                      if r' = [] \<and> hh \<le> 23 \<and> mm \<le> 59
                      then Some ((if c = 0x2D then - 1 else 1) * (hh * 60 + mm)) else None))
          else None)"

definition time_value :: "int \<Rightarrow> jsdate" where
  "time_value t = (if \<bar>t\<bar> > 8640000000000000 then InvalidDate else TimeValue t)"

definition utc_parse :: "jsstring \<Rightarrow> jsdate" where
  "utc_parse s =
     (case parse_date s of
        None \<Rightarrow> InvalidDate
      | Some (day, r) \<Rightarrow>
          (case r of
             [] \<Rightarrow> time_value (day * 86400000)
           | c # r1 \<Rightarrow>
               if c \<noteq> 0x54 then InvalidDate
               else
                 (case parse_time r1 of
                    None \<Rightarrow> InvalidDate
                  | Some (t, r2) \<Rightarrow>
                      (case parse_offset r2 of
                         None \<Rightarrow> InvalidDate
                       | Some off \<Rightarrow> time_value (day * 86400000 + t - off * 60000)))))"

definition two_digits :: "int \<Rightarrow> jsstring" where
  "two_digits n = (if n < 10 then js ''0'' @ String_of_int n else String_of_int n)"

definition utc_date_string :: "jsdate \<Rightarrow> jsstring" where
  "utc_date_string dt =
     (case dt of
        InvalidDate \<Rightarrow> js ''Invalid Date''
      | TimeValue t \<Rightarrow>
          (let (y, m, d) = civil_from_days (t div 86400000)
           in two_digits d @ js ''/'' @ two_digits m @ js ''/'' @ String_of_int y))"

definition utc_time_string :: "jsdate \<Rightarrow> jsstring" where
  "utc_time_string dt =
     (case dt of
        InvalidDate \<Rightarrow> js ''Invalid Date''
      | TimeValue t \<Rightarrow>
          (let ms = t mod 86400000
           in two_digits (ms div 3600000) @ js '':'' @ two_digits (ms div 60000 mod 60)))"

text \<open>
  \<open>Number::toString\<close> for a finite value of at least \<open>10\<^sup>2\<^sup>1\<close>, the way V8 prints:
  the fewest digits \<open>s\<close> such that \<open>s \<times> 10\<^sup>n\<^sup>-\<^sup>k\<close> rounds to the value, and among
  those the closest; then \<open>d.ddde+x\<close>.
\<close>

definition digits_fit :: "rat \<Rightarrow> nat \<Rightarrow> nat \<times> nat \<Rightarrow> bool" where
  "digits_fit x k c =
     (case c of (n, s) \<Rightarrow>
        10 ^ (k - 1) \<le> s \<and> s < 10 ^ k \<and> round_to_double (of_nat s * 10 ^ (n - k)) = Finite x)"

definition digits_error :: "rat \<Rightarrow> nat \<Rightarrow> nat \<times> nat \<Rightarrow> rat" where
  "digits_error x k c = (case c of (n, s) \<Rightarrow> \<bar>of_nat s * 10 ^ (n - k) - x\<bar>)"

fun closest_digits :: "rat \<Rightarrow> nat \<Rightarrow> nat \<times> nat \<Rightarrow> (nat \<times> nat) list \<Rightarrow> nat \<times> nat" where
  "closest_digits x k best [] = best"
| "closest_digits x k best (c # cs) =
     closest_digits x k
       (if digits_error x k c < digits_error x k best
           \<or> digits_error x k c = digits_error x k best \<and> even (snd c) \<and> odd (snd best)
        then c else best) cs"

fun shortest_digits :: "rat \<Rightarrow> nat \<Rightarrow> nat \<Rightarrow> nat \<Rightarrow> nat \<times> nat \<times> nat" where
  "shortest_digits x d 0 k = (d, k, nat \<lfloor>x / 10 ^ (d - k)\<rfloor>)"
| "shortest_digits x d (Suc fuel) k =
     (let s0 = nat \<lfloor>x / 10 ^ (d - k)\<rfloor>
      in case filter (digits_fit x k) [(d, s0), (d, s0 + 1), (d + 1, 10 ^ (k - 1))] of
           [] \<Rightarrow> shortest_digits x d fuel (Suc k)
         | c # cs \<Rightarrow> (case closest_digits x k c cs of (n, s) \<Rightarrow> (n, k, s)))"

definition exponential_string :: "rat \<Rightarrow> jsstring" where
  "exponential_string x =
     (let d = length (digits_of (nat \<lfloor>x\<rfloor>))
      in case shortest_digits x d 16 1 of
           (n, k, s) \<Rightarrow>
             (let ds = digits_of s
              in (if k = 1 then ds else take 1 ds @ js ''.'' @ drop 1 ds)
                 @ js ''e+'' @ String_of_int (int n - 1)))"

definition host_utc :: host where
  "host_utc =
     \<lparr>Number_toString = exponential_string,
      Date_parse = utc_parse,
      toLocaleDateString = utc_date_string,
      toLocaleTimeString = utc_time_string\<rparr>"

section \<open>Regular expressions (the fragment used by \<open>isValidIp\<close>)\<close>

datatype rexp =
    Eps
  | Range code_unit code_unit
  | Alt rexp rexp
  | Seq rexp rexp
  | Void

fun lang :: "rexp \<Rightarrow> jsstring set" where
  "lang Eps = {[]}"
| "lang Void = {}"
| "lang (Range lo hi) = {[c] | c. lo \<le> c \<and> c \<le> hi}"
| "lang (Alt r s) = lang r \<union> lang s"
| "lang (Seq r s) = {u @ v | u v. u \<in> lang r \<and> v \<in> lang s}"

fun nullable :: "rexp \<Rightarrow> bool" where
  "nullable Eps = True"
| "nullable Void = False"
| "nullable (Range lo hi) = False"
| "nullable (Alt r s) = (nullable r \<or> nullable s)"
| "nullable (Seq r s) = (nullable r \<and> nullable s)"

fun deriv :: "code_unit \<Rightarrow> rexp \<Rightarrow> rexp" where
  "deriv c Eps = Void"
| "deriv c Void = Void"
| "deriv c (Range lo hi) = (if lo \<le> c \<and> c \<le> hi then Eps else Void)"
| "deriv c (Alt r s) = Alt (deriv c r) (deriv c s)"
| "deriv c (Seq r s) =
     (if nullable r then Alt (Seq (deriv c r) s) (deriv c s) else Seq (deriv c r) s)"

fun matches :: "rexp \<Rightarrow> jsstring \<Rightarrow> bool" where
  "matches r [] = nullable r"
| "matches r (c # cs) = matches (deriv c r) cs"

definition Sym :: "char \<Rightarrow> rexp" where
  "Sym c = Range (of_char c) (of_char c)"

definition Chars :: "char \<Rightarrow> char \<Rightarrow> rexp" where
  "Chars a b = Range (of_char a) (of_char b)"

definition Opt :: "rexp \<Rightarrow> rexp" where
  "Opt r = Alt r Eps"

section \<open>Printer IP configuration store (\<open>PrinterIpConfigService\<close>)\<close>

record PrinterIpConfig =
  ip :: jsstring
  port :: int

text \<open>
  The value kept in \<open>localStorage\<close> under the service's one key: nothing (or the empty
  string, which is falsy as well), a text on which \<open>JSON.parse\<close> or the read of \<open>.ip\<close>
  throws, or the JSON text of a configuration. \<open>JSON.stringify\<close> followed by
  \<open>JSON.parse\<close> gives back an equal, new object. \<open>setItem\<close> may throw (quota); the
  flag \<open>setItem_throws\<close> says whether it does.
\<close>

datatype stored_item = NoItem | Corrupt | Stored PrinterIpConfig

text \<open>
  The service object. \<open>DEFAULT_CONFIG\<close> is one object held by the service;
  \<open>getConfig\<close> hands out that very object in three of its branches, so a caller that
  assigns to a field of the result changes the service's default. The result of
  \<open>getConfig\<close> is therefore a reference: the default object, or a new object made by
  \<open>JSON.parse\<close>.
\<close>

record PrinterIpConfigService =
  DEFAULT_CONFIG :: PrinterIpConfig
  localStorage :: stored_item
  setItem_throws :: bool

datatype config_ref = TheDefault | Parsed PrinterIpConfig

definition new_PrinterIpConfigService :: "stored_item \<Rightarrow> bool \<Rightarrow> PrinterIpConfigService" where
  "new_PrinterIpConfigService stored throws =
     \<lparr>DEFAULT_CONFIG = \<lparr>ip = js ''192.168.192.12'', port = 9100\<rparr>,
      localStorage = stored, setItem_throws = throws\<rparr>"

definition deref :: "PrinterIpConfigService \<Rightarrow> config_ref \<Rightarrow> PrinterIpConfig" where
  "deref svc r = (case r of TheDefault \<Rightarrow> DEFAULT_CONFIG svc | Parsed c \<Rightarrow> c)"

definition saveConfig :: "PrinterIpConfigService \<Rightarrow> PrinterIpConfig \<Rightarrow> PrinterIpConfigService" where
  "saveConfig svc config =
     (if setItem_throws svc then svc else svc\<lparr>localStorage := Stored config\<rparr>)"

definition getConfig :: "PrinterIpConfigService \<Rightarrow> PrinterIpConfigService \<times> config_ref" where
  "getConfig svc =
     (case localStorage svc of
        NoItem \<Rightarrow> (svc, TheDefault)
      | Corrupt \<Rightarrow> (svc, TheDefault)
      | Stored config \<Rightarrow>
          if ip config = js ''192.168.192.168''
          then (saveConfig svc (DEFAULT_CONFIG svc), TheDefault)
          else (svc, Parsed config))"

text \<open>\<open>get()\<close> as a caller sees it: the state afterwards and the value returned.\<close>

definition getConfig_value :: "PrinterIpConfigService \<Rightarrow> PrinterIpConfigService \<times> PrinterIpConfig" where
  "getConfig_value svc = (let (svc', r) = getConfig svc in (svc', deref svc' r))"

text \<open>\<open>config.ip = ip\<close> on the object \<open>getConfig\<close> returned, then \<open>saveConfig(config)\<close>.\<close>

definition setPrinterIp :: "PrinterIpConfigService \<Rightarrow> jsstring \<Rightarrow> PrinterIpConfigService" where
  "setPrinterIp svc new_ip =
     (let (svc1, r) = getConfig svc in
      case r of
        TheDefault \<Rightarrow>
          (let svc2 = svc1\<lparr>DEFAULT_CONFIG := (DEFAULT_CONFIG svc1)\<lparr>ip := new_ip\<rparr>\<rparr>
           in saveConfig svc2 (DEFAULT_CONFIG svc2))
      | Parsed c \<Rightarrow> saveConfig svc1 (c\<lparr>ip := new_ip\<rparr>))"

definition setPrinterPort :: "PrinterIpConfigService \<Rightarrow> int \<Rightarrow> PrinterIpConfigService" where
  "setPrinterPort svc new_port =
     (let (svc1, r) = getConfig svc in
      case r of
        TheDefault \<Rightarrow>
          (let svc2 = svc1\<lparr>DEFAULT_CONFIG := (DEFAULT_CONFIG svc1)\<lparr>port := new_port\<rparr>\<rparr>
           in saveConfig svc2 (DEFAULT_CONFIG svc2))
      | Parsed c \<Rightarrow> saveConfig svc1 (c\<lparr>port := new_port\<rparr>))"

definition resetToDefault :: "PrinterIpConfigService \<Rightarrow> PrinterIpConfigService" where
  "resetToDefault svc = saveConfig svc (DEFAULT_CONFIG svc)"

text \<open>
  \<open>isValidIp\<close>: the source's regular expression, anchored at both ends:
  three times an octet followed by a dot, then an octet, where an octet is
  \<open>25[0-5]\<close>, \<open>2[0-4][0-9]\<close> or \<open>[01]?[0-9][0-9]?\<close>.
\<close>

definition octet :: rexp where
  "octet =
     Alt (Seq (Sym CHR ''2'') (Seq (Sym CHR ''5'') (Chars CHR ''0'' CHR ''5'')))
    (Alt (Seq (Sym CHR ''2'') (Seq (Chars CHR ''0'' CHR ''4'') (Chars CHR ''0'' CHR ''9'')))
         (Seq (Opt (Chars CHR ''0'' CHR ''1''))
              (Seq (Chars CHR ''0'' CHR ''9'') (Opt (Chars CHR ''0'' CHR ''9'')))))"

definition ipRegex :: rexp where
  "ipRegex =
     Seq (Seq octet (Sym CHR ''.''))
    (Seq (Seq octet (Sym CHR ''.''))
    (Seq (Seq octet (Sym CHR ''.'')) octet))"

definition isValidIp :: "jsstring \<Rightarrow> bool" where
  "isValidIp s = matches ipRegex s"

definition isValidPort :: "int \<Rightarrow> bool" where
  "isValidPort p \<longleftrightarrow> p > 0 \<and> p \<le> 65535"

text \<open>
  \<open>handleSaveIp\<close> of the printer status display, the only caller of \<open>setPrinterIp\<close>:
  it refuses an empty and an ill-formed address before the store is touched.
\<close>

datatype save_result = SaveError jsstring | SaveSuccess jsstring

definition msg_empty_ip :: jsstring where
  "msg_empty_ip = js ''L'' @ [0x27] @ js ''adresse IP ne peut pas '' @ [0xEA] @ js ''tre vide''"

definition msg_invalid_ip :: jsstring where
  "msg_invalid_ip = js ''Format d'' @ [0x27] @ js ''adresse IP invalide''"

definition msg_ip_updated :: jsstring where
  "msg_ip_updated =
     js ''Adresse IP de l'' @ [0x27] @ js ''imprimante mise '' @ [0xE0] @ js '' jour avec succ''
       @ [0xE8] @ js ''s !''"

definition handleSaveIp ::
  "PrinterIpConfigService \<Rightarrow> jsstring \<Rightarrow> PrinterIpConfigService \<times> save_result" where
  "handleSaveIp svc newIp =
     (if trim newIp = [] then (svc, SaveError msg_empty_ip)
      else if \<not> isValidIp (trim newIp) then (svc, SaveError msg_invalid_ip)
      else (setPrinterIp svc (trim newIp), SaveSuccess msg_ip_updated))"

section \<open>Requests\<close>

text \<open>
  The body of a print request is parsed JSON viewed as the interface says; nothing
  checks it, so every field may be absent (\<open>None\<close> is \<open>undefined\<close>), and a field that is
  present has the type the interface gives it, but for \<open>createdAt\<close>, which JSON cannot
  give its declared type and which is kept as the value sent. Counts are integers.
\<close>

record PrintRequest =
  createdBy :: "jsstring option"
  createdAt :: jsvalue
  printerConfig :: "PrinterIpConfig option"

record TicketData = PrintRequest +
  licensePlate :: "jsstring option"
  destinationName :: "jsstring option"
  routeName :: "jsstring option"
  seatNumber :: "int option"
  totalAmount :: "jsnumber option"
  stationFee :: "jsnumber option"
  stationName :: "jsstring option"
  vehicleCapacity :: "int option"
  basePrice :: "jsnumber option"
  exitPassCount :: "int option"
  companyName :: "jsstring option"
  companyLogo :: "jsstring option"
  staffFirstName :: "jsstring option"
  staffLastName :: "jsstring option"

record StaffRow =
  name :: "jsstring option"
  seats :: "int option"
  seatIncome :: "jsnumber option"
  dayPasses :: "int option"
  dayPassIncome :: "jsnumber option"
  income :: "jsnumber option"

record StatisticsReportData = PrintRequest +
  periodLabel :: "jsstring option"
  totalSeatsBooked :: "int option"
  totalSeatIncome :: "jsnumber option"
  totalDayPassesSold :: "int option"
  totalDayPassIncome :: "jsnumber option"
  totalIncome :: "jsnumber option"
  staffData :: "StaffRow list option"

datatype ticket_type = Booking | DayPass | ExitPass

text \<open>Reading a property of \<open>undefined\<close> (here: \<open>toFixed\<close> of an absent amount) throws.\<close>

datatype js_error = TypeError | SyntaxError | Error jsstring

section \<open>Protocol encoder (\<open>convertToESCPOS\<close>)\<close>

text \<open>\<open>Array.prototype.join\<close> on a list of strings (also used for byte lists).\<close>

fun join :: "'a list \<Rightarrow> 'a list list \<Rightarrow> 'a list" where
  "join sep [] = []"
| "join sep [x] = x"
| "join sep (x # y # ys) = x @ sep @ join sep (y # ys)"

text \<open>
  \<open>Buffer.from(content, 'utf8')\<close>: the UTF-8 encoding of a UTF-16 string. A high
  surrogate followed by a low surrogate is one code point of four bytes; a surrogate
  on its own becomes the replacement character, bytes EF BF BD.
\<close>

definition is_high_surrogate :: "code_unit \<Rightarrow> bool" where
  "is_high_surrogate u \<longleftrightarrow> 0xD800 \<le> u \<and> u \<le> 0xDBFF"

definition is_low_surrogate :: "code_unit \<Rightarrow> bool" where
  "is_low_surrogate u \<longleftrightarrow> 0xDC00 \<le> u \<and> u \<le> 0xDFFF"

definition utf8_replacement :: "byte list" where
  "utf8_replacement = [0xEF, 0xBF, 0xBD]"

definition utf8_code_point :: "nat \<Rightarrow> byte list" where
  "utf8_code_point c =
     (if c < 0x80 then [of_nat c]
      else if c < 0x800 then [of_nat (0xC0 + c div 0x40), of_nat (0x80 + c mod 0x40)]
      else if c < 0x10000 then
        [of_nat (0xE0 + c div 0x1000), of_nat (0x80 + c div 0x40 mod 0x40),
         of_nat (0x80 + c mod 0x40)]
      else
        [of_nat (0xF0 + c div 0x40000), of_nat (0x80 + c div 0x1000 mod 0x40),
         of_nat (0x80 + c div 0x40 mod 0x40), of_nat (0x80 + c mod 0x40)])"

definition surrogate_pair :: "code_unit \<Rightarrow> code_unit \<Rightarrow> nat" where
  "surrogate_pair hi lo = 0x10000 + (unat hi - 0xD800) * 0x400 + (unat lo - 0xDC00)"

fun utf8 :: "jsstring \<Rightarrow> byte list" where
  "utf8 [] = []"
| "utf8 (u # us) =
     (if is_high_surrogate u then
        (case us of
           [] \<Rightarrow> utf8_replacement
         | v # vs \<Rightarrow>
             if is_low_surrogate v then utf8_code_point (surrogate_pair u v) @ utf8 vs
             else utf8_replacement @ utf8 us)
      else if is_low_surrogate u then utf8_replacement @ utf8 us
      else utf8_code_point (unat u) @ utf8 us)"

text \<open>The encoder of \<open>src/services/embeddedPrinterService.ts\<close>.\<close>

definition convertToESCPOS :: "jsstring \<Rightarrow> byte list" where
  "convertToESCPOS content =
     (let data = [0x1B, 0x40];
          data = data @ [0x1B, 0x74, 0x02];
          data = data @ [0x1B, 0x61, 0x01];
          contentBuffer = utf8 content;
          data = data @ contentBuffer;
          data = data @ [0x1B, 0x61, 0x00];
          data = data @ [0x0A, 0x0A, 0x0A, 0x0A];
          data = data @ [0x1D, 0x56, 0x00]
      in data)"

text \<open>The encoder of the second service file (\<open>unnamed/part_004\<close>).\<close>

definition convertToESCPOS_part004 :: "jsstring \<Rightarrow> byte list" where
  "convertToESCPOS_part004 content =
     (let data = [0x1B, 0x40];
          data = data @ utf8 content;
          data = data @ [0x0A, 0x0A, 0x0A];
          data = data @ [0x1D, 0x56, 0x00]
      in data)"

section \<open>Delivery channel (\<open>sendToPrinter\<close>)\<close>

text \<open>
  \<open>sendToPrinter\<close> creates a socket, registers four handlers and calls \<open>connect\<close>;
  everything else happens when the socket emits an event, when the callback of
  \<open>socket.write\<close> runs, or when the timer set by \<open>setTimeout\<close> fires. The state is
  what the closure holds (\<open>isResolved\<close>, \<open>dataWritten\<close>) together with what the
  handlers did to the outside: the calls of \<open>resolve\<close> and \<open>reject\<close> in order, the
  bytes passed to \<open>socket.write\<close>, the timers pending, and whether \<open>destroy\<close> or
  \<open>end\<close> was called on the socket.
\<close>

datatype settle = Resolve | Reject jsstring

datatype socket_event =
    Connect
  | WriteCallback "jsstring option"
  | SocketError jsstring
  | Timeout
  | Close
  | TimerFired

record delivery =
  isResolved :: bool
  dataWritten :: bool
  calls :: "settle list"
  wire :: "byte list"
  timers :: nat
  destroyed :: bool
  ended :: bool

definition new_delivery :: delivery where
  "new_delivery =
     \<lparr>isResolved = False, dataWritten = False, calls = [], wire = [], timers = 0,
      destroyed = False, ended = False\<rparr>"

text \<open>A promise takes the first call of \<open>resolve\<close> or \<open>reject\<close>; \<open>None\<close> is a promise
  still pending.\<close>

definition promise :: "delivery \<Rightarrow> settle option" where
  "promise d = (case calls d of [] \<Rightarrow> None | c # _ \<Rightarrow> Some c)"

definition resolve :: "delivery \<Rightarrow> delivery" where
  "resolve d = d\<lparr>calls := calls d @ [Resolve]\<rparr>"

definition reject :: "jsstring \<Rightarrow> delivery \<Rightarrow> delivery" where
  "reject m d = d\<lparr>calls := calls d @ [Reject m]\<rparr>"

definition msg_cannot_connect :: "jsstring \<Rightarrow> int \<Rightarrow> jsstring \<Rightarrow> jsstring" where
  "msg_cannot_connect host prt m =
     js ''Cannot connect to printer at '' @ host @ js '':'' @ String_of_int prt @ js '' - '' @ m"

definition msg_timeout :: "jsstring \<Rightarrow> int \<Rightarrow> jsstring" where
  "msg_timeout host prt =
     js ''Printer connection timeout at '' @ host @ js '':'' @ String_of_int prt"

definition msg_closed :: jsstring where
  "msg_closed = js ''Connection closed before data could be sent''"

text \<open>The handlers of \<open>src/services/embeddedPrinterService.ts\<close>.\<close>

fun sendToPrinter :: "jsstring \<Rightarrow> int \<Rightarrow> byte list \<Rightarrow> delivery \<Rightarrow> socket_event \<Rightarrow> delivery" where
  "sendToPrinter host prt data d Connect = d\<lparr>wire := wire d @ data\<rparr>"
| "sendToPrinter host prt data d (WriteCallback err) =
     (case err of
        Some e \<Rightarrow>
          if \<not> isResolved d then reject e (d\<lparr>isResolved := True, destroyed := True\<rparr>)
          else d\<lparr>dataWritten := True, timers := timers d + 1\<rparr>
      | None \<Rightarrow> d\<lparr>dataWritten := True, timers := timers d + 1\<rparr>)"
| "sendToPrinter host prt data d TimerFired =
     (if timers d = 0 then d
      else let d = d\<lparr>timers := timers d - 1\<rparr>
           in if \<not> isResolved d then resolve (d\<lparr>isResolved := True, destroyed := True\<rparr>) else d)"
| "sendToPrinter host prt data d (SocketError m) =
     (if \<not> isResolved d then reject (msg_cannot_connect host prt m) (d\<lparr>isResolved := True\<rparr>)
      else d)"
| "sendToPrinter host prt data d Timeout =
     (if \<not> isResolved d then
        (let d = d\<lparr>isResolved := True, destroyed := True\<rparr>
         in if dataWritten d then resolve d else reject (msg_timeout host prt) d)
      else d)"
| "sendToPrinter host prt data d Close =
     (if \<not> isResolved d then
        (let d = d\<lparr>isResolved := True\<rparr>
         in if dataWritten d then resolve d else reject msg_closed d)
      else d)"

text \<open>The handlers of the service in \<open>electron/main.ts\<close>: the write callback also ends
  the socket, and the delayed resolution does not destroy it.\<close>

fun sendToPrinter_electron ::
  "jsstring \<Rightarrow> int \<Rightarrow> byte list \<Rightarrow> delivery \<Rightarrow> socket_event \<Rightarrow> delivery" where
  "sendToPrinter_electron host prt data d Connect = d\<lparr>wire := wire d @ data\<rparr>"
| "sendToPrinter_electron host prt data d (WriteCallback err) =
     (case err of
        Some e \<Rightarrow>
          if \<not> isResolved d then reject e (d\<lparr>isResolved := True, destroyed := True\<rparr>)
          else d\<lparr>dataWritten := True, ended := True, timers := timers d + 1\<rparr>
      | None \<Rightarrow> d\<lparr>dataWritten := True, ended := True, timers := timers d + 1\<rparr>)"
| "sendToPrinter_electron host prt data d TimerFired =
     (if timers d = 0 then d
      else let d = d\<lparr>timers := timers d - 1\<rparr>
           in if \<not> isResolved d then resolve (d\<lparr>isResolved := True\<rparr>) else d)"
| "sendToPrinter_electron host prt data d (SocketError m) =
     (if \<not> isResolved d then reject (msg_cannot_connect host prt m) (d\<lparr>isResolved := True\<rparr>)
      else d)"
| "sendToPrinter_electron host prt data d Timeout =
     (if \<not> isResolved d then
        (let d = d\<lparr>isResolved := True, destroyed := True\<rparr>
         in if dataWritten d then resolve d else reject (msg_timeout host prt) d)
      else d)"
| "sendToPrinter_electron host prt data d Close =
     (if \<not> isResolved d then
        (let d = d\<lparr>isResolved := True\<rparr>
         in if dataWritten d then resolve d else reject msg_closed d)
      else d)"

text \<open>The handlers of the second service file (\<open>unnamed/part_004\<close>): \<open>socket.write\<close>
  has no callback, there is no \<open>dataWritten\<close> and no timer; the timeout handler
  destroys the socket before it looks at \<open>isResolved\<close>.\<close>

fun sendToPrinter_part004 ::
  "jsstring \<Rightarrow> int \<Rightarrow> byte list \<Rightarrow> delivery \<Rightarrow> socket_event \<Rightarrow> delivery" where
  "sendToPrinter_part004 host prt data d Connect = d\<lparr>wire := wire d @ data\<rparr>"
| "sendToPrinter_part004 host prt data d (SocketError m) =
     (if \<not> isResolved d then reject m (d\<lparr>isResolved := True\<rparr>) else d)"
| "sendToPrinter_part004 host prt data d Timeout =
     (let d = d\<lparr>destroyed := True\<rparr>
      in if \<not> isResolved d then reject (js ''Printer connection timeout'') (d\<lparr>isResolved := True\<rparr>)
         else d)"
| "sendToPrinter_part004 host prt data d Close =
     (if \<not> isResolved d then resolve (d\<lparr>isResolved := True\<rparr>) else d)"
| "sendToPrinter_part004 host prt data d (WriteCallback err) = d"
| "sendToPrinter_part004 host prt data d TimerFired = d"

text \<open>A delivery from the call of \<open>sendToPrinter\<close> through a sequence of events.\<close>

definition deliver :: "(delivery \<Rightarrow> socket_event \<Rightarrow> delivery) \<Rightarrow> socket_event list \<Rightarrow> delivery" where
  "deliver handlers evs = foldl handlers new_delivery evs"

text \<open>The events whose handler settles a pending delivery whatever the state, and the
  three socket events whose whole handler body is under the \<open>isResolved\<close> guard.\<close>

definition settling :: "socket_event \<Rightarrow> bool" where
  "settling ev =
     (case ev of WriteCallback (Some e) \<Rightarrow> True | SocketError m \<Rightarrow> True | Timeout \<Rightarrow> True
      | Close \<Rightarrow> True | _ \<Rightarrow> False)"

definition guarded :: "socket_event \<Rightarrow> bool" where
  "guarded ev = (case ev of SocketError m \<Rightarrow> True | Timeout \<Rightarrow> True | Close \<Rightarrow> True | _ \<Rightarrow> False)"

text \<open>The flag and the calls agree: one call once resolved, none before.\<close>

definition once :: "delivery \<Rightarrow> bool" where
  "once d \<longleftrightarrow> (if isResolved d then length (calls d) = 1 else calls d = [])"

section \<open>Ticket and report formatters\<close>

definition only_if :: "bool \<Rightarrow> 'a list \<Rightarrow> 'a list" where
  "only_if c xs = (if c then xs else [])"

text \<open>\<open>x || d\<close> on strings and on numbers.\<close>

definition or_string :: "jsstring option \<Rightarrow> jsstring \<Rightarrow> jsstring" where
  "or_string x d = (if truthy_string x then template_string x else d)"

definition or_number :: "jsnumber option \<Rightarrow> jsnumber \<Rightarrow> jsnumber" where
  "or_number x d = (case x of None \<Rightarrow> d | Some v \<Rightarrow> if truthy_number x then v else d)"

definition or_int :: "int option \<Rightarrow> int \<Rightarrow> int" where
  "or_int x d = (case x of None \<Rightarrow> d | Some v \<Rightarrow> if v = 0 then d else v)"

text \<open>\<open>Number(x)\<close> and \<open>typeof x === 'number' ? x : d\<close>.\<close>

definition Number :: "jsnumber option \<Rightarrow> jsnumber" where
  "Number x = (case x of None \<Rightarrow> NaN | Some v \<Rightarrow> v)"

definition number_or :: "jsnumber option \<Rightarrow> jsnumber \<Rightarrow> jsnumber" where
  "number_or x d = (case x of None \<Rightarrow> d | Some v \<Rightarrow> v)"

text \<open>The lines guarded by \<open>if (data.basePrice)\<close> and the like.\<close>

definition if_number :: "jsnumber option \<Rightarrow> (jsnumber \<Rightarrow> 'a list) \<Rightarrow> 'a list" where
  "if_number x f = (case x of None \<Rightarrow> [] | Some v \<Rightarrow> if truthy_number x then f v else [])"

definition number_fixed :: "host \<Rightarrow> nat \<Rightarrow> jsnumber \<Rightarrow> jsstring" where
  "number_fixed h f x = toFixed (Number_toString h) f x"

text \<open>\<open>Math.max(1, data.seatNumber || 1)\<close>.\<close>

definition seatCount_of :: "int option \<Rightarrow> int" where
  "seatCount_of n = max 1 (or_int n 1)"

definition LF :: jsstring where
  "LF = [0x0A]"

subsection \<open>\<open>generateTicketContent\<close> of \<open>src/services/embeddedPrinterService.ts\<close>\<close>

definition ticket_header :: "jsstring list" where
  "ticket_header =
     [js ''================================'',
      js ''  STE DHRAIFF SERVICES'',
      js ''     TRANSPORT'',
      js ''================================'',
      []]"

definition ticket_footer :: "jsstring list" where
  "ticket_footer =
     [[],
      js ''================================'',
      js ''    Merci et bon voyage!'',
      js ''================================'',
      [], [], []]"

definition booking_lines :: "host \<Rightarrow> TicketData \<Rightarrow> jsnumber \<Rightarrow> jsstring list" where
  "booking_lines h data amount =
     (let now = new_Date h (createdAt data);
          dateStr = toLocaleDateString h now;
          timeStr = toLocaleTimeString h now;
          seatCount = seatCount_of (seatNumber data)
      in [js ''     BILLET RESERVATION'',
          js ''================================'']
         @ only_if (truthy_string (licensePlate data))
             [js ''Vehicule: '' @ template_string (licensePlate data)]
         @ [js ''Destination: '' @ or_string (destinationName data) (js ''N/A''),
            js ''Sieges: '' @ String_of_int seatCount,
            js ''--------------------------------'']
         @ if_number (basePrice data)
             (\<lambda>price. [js ''Prix base: '' @ number_fixed h 2 (js_times price (Number_of_int seatCount)) @ js '' TND''])
         @ if_number (stationFee data)
             (\<lambda>fee. [js ''Frais: '' @ number_fixed h 2 (js_times fee (Number_of_int seatCount)) @ js '' TND''])
         @ [js ''Total: '' @ number_fixed h 2 amount @ js '' TND'',
            js ''--------------------------------'',
            js ''Date: '' @ dateStr,
            js ''Heure: '' @ timeStr]
         @ only_if (truthy_string (createdBy data)) [js ''Agent: '' @ template_string (createdBy data)])"

definition daypass_lines :: "host \<Rightarrow> TicketData \<Rightarrow> jsnumber \<Rightarrow> jsstring list" where
  "daypass_lines h data amount =
     (let now = new_Date h (createdAt data);
          dateStr = toLocaleDateString h now;
          timeStr = toLocaleTimeString h now
      in [js ''      PASS JOURNEE'',
          js ''================================'',
          js ''Vehicule: '' @ template_string (licensePlate data)]
         @ only_if (truthy_string (destinationName data))
             [js ''Route: '' @ template_string (destinationName data)]
         @ [js ''--------------------------------'',
            js ''Montant: '' @ number_fixed h 2 amount @ js '' TND'',
            js ''--------------------------------'',
            js ''Date: '' @ dateStr,
            js ''Heure: '' @ timeStr]
         @ only_if (truthy_string (createdBy data)) [js ''Agent: '' @ template_string (createdBy data)]
         @ [js ''--------------------------------'',
            js ''   Valide toute la journee''])"

definition exitpass_lines :: "host \<Rightarrow> TicketData \<Rightarrow> jsnumber \<Rightarrow> jsstring list" where
  "exitpass_lines h data amount =
     (let now = new_Date h (createdAt data);
          dateStr = toLocaleDateString h now;
          timeStr = toLocaleTimeString h now
      in [js ''  AUTORISATION DE SORTIE'',
          js ''================================'',
          js ''Vehicule: '' @ template_string (licensePlate data),
          js ''Destination: '' @ or_string (destinationName data) (js ''N/A''),
          js ''--------------------------------'']
         @ (case seatNumber data of
              None \<Rightarrow> []
            | Some n \<Rightarrow>
                only_if (n \<noteq> 0 \<and> n > 0)
                  ([js ''Sieges: '' @ String_of_int n]
                   @ if_number (basePrice data)
                       (\<lambda>price. [js ''Prix: '' @ number_fixed h 2 (js_times price (Number_of_int n)) @ js '' TND''])))
         @ [js ''Total: '' @ number_fixed h 2 amount @ js '' TND'',
            js ''--------------------------------'',
            js ''Date: '' @ dateStr,
            js ''Heure: '' @ timeStr]
         @ only_if (truthy_string (createdBy data)) [js ''Agent: '' @ template_string (createdBy data)]
         @ [js ''--------------------------------'',
            js ''      Sortie autorisee''])"

text \<open>The array \<open>lines\<close> at the end of the function; every branch calls
  \<open>data.totalAmount.toFixed\<close>, which throws when the amount is absent.\<close>

definition generateTicketContent_lines ::
  "host \<Rightarrow> TicketData \<Rightarrow> ticket_type \<Rightarrow> js_error + jsstring list" where
  "generateTicketContent_lines h data type =
     (case totalAmount data of
        None \<Rightarrow> Inl TypeError
      | Some amount \<Rightarrow>
          Inr (ticket_header
               @ (case type of
                    Booking \<Rightarrow> booking_lines h data amount
                  | DayPass \<Rightarrow> daypass_lines h data amount
                  | ExitPass \<Rightarrow> exitpass_lines h data amount)
               @ ticket_footer))"

definition generateTicketContent :: "host \<Rightarrow> TicketData \<Rightarrow> ticket_type \<Rightarrow> js_error + jsstring" where
  "generateTicketContent h data type = map_sum id (join LF) (generateTicketContent_lines h data type)"

subsection \<open>\<open>generateTicketContent\<close> of the service in \<open>electron/main.ts\<close>\<close>

text \<open>The day pass is as above. The booking prints \<open>data.seatNumber\<close> and
  \<open>data.destinationName\<close> as they are and multiplies by \<open>data.seatNumber\<close>; the exit pass
  prints \<open>data.destinationName\<close> as it is.\<close>

definition booking_lines_electron :: "host \<Rightarrow> TicketData \<Rightarrow> jsnumber \<Rightarrow> jsstring list" where
  "booking_lines_electron h data amount =
     (let now = new_Date h (createdAt data);
          dateStr = toLocaleDateString h now;
          timeStr = toLocaleTimeString h now
      in [js ''     BILLET RESERVATION'',
          js ''================================'']
         @ only_if (truthy_string (licensePlate data))
             [js ''Vehicule: '' @ template_string (licensePlate data)]
         @ [js ''Destination: '' @ template_string (destinationName data),
            js ''Sieges: '' @ template_int (seatNumber data),
            js ''--------------------------------'']
         @ if_number (basePrice data)
             (\<lambda>price. [js ''Prix base: ''
                @ number_fixed h 2 (js_times price (Number_of_int_opt (seatNumber data))) @ js '' TND''])
         @ if_number (stationFee data)
             (\<lambda>fee. [js ''Frais: ''
                @ number_fixed h 2 (js_times fee (Number_of_int_opt (seatNumber data))) @ js '' TND''])
         @ [js ''Total: '' @ number_fixed h 2 amount @ js '' TND'',
            js ''--------------------------------'',
            js ''Date: '' @ dateStr,
            js ''Heure: '' @ timeStr]
         @ only_if (truthy_string (createdBy data)) [js ''Agent: '' @ template_string (createdBy data)])"

definition exitpass_lines_electron :: "host \<Rightarrow> TicketData \<Rightarrow> jsnumber \<Rightarrow> jsstring list" where
  "exitpass_lines_electron h data amount =
     (let now = new_Date h (createdAt data);
          dateStr = toLocaleDateString h now;
          timeStr = toLocaleTimeString h now
      in [js ''  AUTORISATION DE SORTIE'',
          js ''================================'',
          js ''Vehicule: '' @ template_string (licensePlate data),
          js ''Destination: '' @ template_string (destinationName data),
          js ''--------------------------------'']
         @ (case seatNumber data of
              None \<Rightarrow> []
            | Some n \<Rightarrow>
                only_if (n \<noteq> 0 \<and> n > 0)
                  ([js ''Sieges: '' @ String_of_int n]
                   @ if_number (basePrice data)
                       (\<lambda>price. [js ''Prix: '' @ number_fixed h 2 (js_times price (Number_of_int n)) @ js '' TND''])))
         @ [js ''Total: '' @ number_fixed h 2 amount @ js '' TND'',
            js ''--------------------------------'',
            js ''Date: '' @ dateStr,
            js ''Heure: '' @ timeStr]
         @ only_if (truthy_string (createdBy data)) [js ''Agent: '' @ template_string (createdBy data)]
         @ [js ''--------------------------------'',
            js ''      Sortie autorisee''])"

definition generateTicketContent_lines_electron ::
  "host \<Rightarrow> TicketData \<Rightarrow> ticket_type \<Rightarrow> js_error + jsstring list" where
  "generateTicketContent_lines_electron h data type =
     (case totalAmount data of
        None \<Rightarrow> Inl TypeError
      | Some amount \<Rightarrow>
          Inr (ticket_header
               @ (case type of
                    Booking \<Rightarrow> booking_lines_electron h data amount
                  | DayPass \<Rightarrow> daypass_lines h data amount
                  | ExitPass \<Rightarrow> exitpass_lines_electron h data amount)
               @ ticket_footer))"

definition generateTicketContent_electron ::
  "host \<Rightarrow> TicketData \<Rightarrow> ticket_type \<Rightarrow> js_error + jsstring" where
  "generateTicketContent_electron h data type =
     map_sum id (join LF) (generateTicketContent_lines_electron h data type)"

subsection \<open>\<open>generateTicketContent\<close> of the second service file (\<open>unnamed/part_004\<close>)\<close>

definition header_part004 :: "jsstring list" where
  "header_part004 =
     [js ''================================'',
      js ''  STE DHRAIFF SERVICES'',
      js ''     TRANSPORT'',
      js ''================================'']"

text \<open>The booking does not throw on an absent amount: \<open>data.totalAmount || (baseTotal +
  stationFeeTotal)\<close>.\<close>

definition booking_lines_part004 :: "host \<Rightarrow> TicketData \<Rightarrow> jsstring list" where
  "booking_lines_part004 h data =
     (let now = new_Date h (createdAt data);
          dateStr = toLocaleDateString h now;
          timeStr = toLocaleTimeString h now;
          seatCount = seatCount_of (seatNumber data);
          stationFeePerSeat = number_or (stationFee data) (round_to_double (15 / 100));
          basePricePerSeat = number_or (basePrice data) (Finite 0);
          baseTotal = js_times basePricePerSeat (Number_of_int seatCount);
          stationFeeTotal = js_times stationFeePerSeat (Number_of_int seatCount);
          amount = or_number (totalAmount data) (js_plus baseTotal stationFeeTotal)
      in [[],
          js ''      BILLET CLIENT'',
          js ''--------------------------------'']
         @ only_if (truthy_string (destinationName data))
             [js ''Destination: '' @ template_string (destinationName data)]
         @ [(js ''Nombre de si'' @ [0xE8] @ js ''ges: '') @ String_of_int seatCount,
            (js ''Prix par si'' @ [0xE8] @ js ''ge: '') @ number_fixed h 2 basePricePerSeat @ js '' TND'',
            js ''Total billets: '' @ number_fixed h 2 baseTotal @ js '' TND'',
            js ''Frais station ('' @ number_fixed h 3 stationFeePerSeat @ js '' TND x '' @ String_of_int seatCount @ js '')'',
            js ''Total frais: '' @ number_fixed h 3 stationFeeTotal @ js '' TND'',
            js ''--------------------------------'',
            js ''Montant TTC: '' @ number_fixed h 3 amount @ js '' TND'',
            js ''Date: '' @ dateStr @ js '' '' @ timeStr,
            js ''Agent: '' @ template_string (createdBy data),
            js ''Bon voyage !''])"

definition daypass_lines_part004 :: "host \<Rightarrow> TicketData \<Rightarrow> jsnumber \<Rightarrow> jsstring list" where
  "daypass_lines_part004 h data amount =
     (let now = new_Date h (createdAt data);
          dateStr = toLocaleDateString h now;
          timeStr = toLocaleTimeString h now
      in [[],
          (js ''   PASS JOURN'' @ [0xC9] @ js ''E''),
          js ''--------------------------------'',
          js ''Vehicule: '' @ template_string (licensePlate data)]
         @ only_if (truthy_string (routeName data)) [js ''Route: '' @ template_string (routeName data)]
         @ [js ''Montant: '' @ number_fixed h 2 amount @ js '' TND'',
            js ''Date: '' @ dateStr @ js '' '' @ timeStr,
            js ''Agent: '' @ template_string (createdBy data),
            js ''--------------------------------'',
            (js ''Valide toute la journ'' @ [0xE9] @ js ''e!'')])"

definition exitpass_lines_part004 :: "host \<Rightarrow> TicketData \<Rightarrow> jsnumber \<Rightarrow> jsstring list" where
  "exitpass_lines_part004 h data amount =
     (let now = new_Date h (createdAt data);
          dateStr = toLocaleDateString h now;
          timeStr = toLocaleTimeString h now
      in [[],
          js ''   AUTORISATION SORTIE'',
          js ''--------------------------------'',
          js ''Vehicule: '' @ template_string (licensePlate data)]
         @ only_if (truthy_string (destinationName data))
             [js ''Destination: '' @ template_string (destinationName data)]
         @ (case (basePrice data, seatNumber data) of
              (Some price, Some n) \<Rightarrow>
                only_if (truthy_number (Some price) \<and> n \<noteq> 0)
                  (case vehicleCapacity data of
                     None \<Rightarrow>
                       [(js ''Si'' @ [0xE8] @ js ''ges r'' @ [0xE9] @ js ''serv'' @ [0xE9] @ js ''s: '') @ String_of_int n,
                        js ''Prix de base: '' @ number_fixed h 2 (js_times price (Number_of_int n)) @ js '' TND'']
                   | Some capacity \<Rightarrow>
                       if capacity \<noteq> 0 \<and> n = capacity then
                         [(js ''Capacit'' @ [0xE9] @ js '' v'' @ [0xE9] @ js ''hicule: '') @ String_of_int capacity @ (js '' si'' @ [0xE8] @ js ''ges''),
                          js ''Frais de service: ''
                            @ number_fixed h 2 (js_times (round_to_double (15 / 100)) (Number_of_int capacity))
                            @ js '' TND'']
                       else
                         [(js ''Si'' @ [0xE8] @ js ''ges r'' @ [0xE9] @ js ''serv'' @ [0xE9] @ js ''s: '') @ String_of_int n,
                          js ''Prix de base: '' @ number_fixed h 2 (js_times price (Number_of_int n)) @ js '' TND''])
            | _ \<Rightarrow> [])
         @ [js ''Montant Total: '' @ number_fixed h 2 amount @ js '' TND'',
            js ''Date: '' @ dateStr @ js '' '' @ timeStr,
            js ''Agent: '' @ template_string (createdBy data),
            js ''--------------------------------'',
            (js ''Sortie autoris'' @ [0xE9] @ js ''e!'')])"

definition staff_agent_line :: "TicketData \<Rightarrow> jsstring list" where
  "staff_agent_line data =
     only_if (truthy_string (staffFirstName data) \<and> truthy_string (staffLastName data))
       [js ''Agent: '' @ template_string (staffFirstName data) @ js '' '' @ template_string (staffLastName data)]"

definition generateTicketContent_lines_part004 ::
  "host \<Rightarrow> TicketData \<Rightarrow> ticket_type \<Rightarrow> js_error + jsstring list" where
  "generateTicketContent_lines_part004 h data type =
     (case type of
        Booking \<Rightarrow>
          Inr (header_part004 @ booking_lines_part004 h data @ staff_agent_line data @ [[], [], []])
      | DayPass \<Rightarrow>
          (case totalAmount data of
             None \<Rightarrow> Inl TypeError
           | Some amount \<Rightarrow>
               Inr (header_part004 @ daypass_lines_part004 h data amount @ staff_agent_line data
                    @ [[], [], []]))
      | ExitPass \<Rightarrow>
          (case totalAmount data of
             None \<Rightarrow> Inl TypeError
           | Some amount \<Rightarrow>
               Inr (header_part004 @ exitpass_lines_part004 h data amount @ staff_agent_line data
                    @ [[], [], []])))"

definition generateTicketContent_part004 ::
  "host \<Rightarrow> TicketData \<Rightarrow> ticket_type \<Rightarrow> js_error + jsstring" where
  "generateTicketContent_part004 h data type =
     map_sum id (join LF) (generateTicketContent_lines_part004 h data type)"

subsection \<open>\<open>generateStatisticsContent\<close>\<close>

text \<open>The second argument is the clock at the time of the call: \<open>new Date()\<close>.\<close>

definition staff_line :: "host \<Rightarrow> StaffRow \<Rightarrow> jsstring" where
  "staff_line h staff =
     (let name = padEnd 10 (take 10 (or_string (name staff) []));
          seats = padStart 6 (String_of_int (or_int (seats staff) 0));
          seatIncome = padStart 10 (number_fixed h 2 (or_number (seatIncome staff) (Finite 0)));
          passes = padStart 6 (String_of_int (or_int (dayPasses staff) 0));
          passIncome = padStart 10 (number_fixed h 2 (or_number (dayPassIncome staff) (Finite 0)));
          amount = padStart 10 (number_fixed h 2 (or_number (income staff) (Finite 0)))
      in name @ js '' | '' @ seats @ js '' | '' @ seatIncome @ js '' | '' @ passes @ js '' | '' @ passIncome
         @ js '' | '' @ amount)"

definition generateStatisticsContent_lines ::
  "host \<Rightarrow> jsdate \<Rightarrow> StatisticsReportData \<Rightarrow> jsstring list" where
  "generateStatisticsContent_lines h clock data =
     (let now = (if truthy_value (createdAt data) then new_Date h (createdAt data) else clock);
          dateStr = toLocaleDateString h now;
          timeStr = toLocaleTimeString h now
      in [js ''================================'',
          js ''  STE DHRAIFF SERVICES'',
          js ''     TRANSPORT'',
          js ''================================'',
          [],
          js ''   RAPPORT DE REVENUS'',
          js ''--------------------------------'',
          js ''Periode: '' @ template_string (periodLabel data),
          js ''Date: '' @ dateStr @ js '' '' @ timeStr]
         @ only_if (truthy_string (createdBy data)) [js ''Agent: '' @ template_string (createdBy data)]
         @ [js ''--------------------------------'',
            [],
            js ''RESUME DES REVENUS'',
            js ''--------------------------------'',
            js ''Total Sieges: '' @ template_int (totalSeatsBooked data),
            js ''Revenus Sieges: '' @ number_fixed h 3 (Number (totalSeatIncome data)) @ js '' TND'',
            js ''Passes Jour: '' @ template_int (totalDayPassesSold data),
            js ''Revenus Passes: '' @ number_fixed h 3 (Number (totalDayPassIncome data)) @ js '' TND'',
            js ''--------------------------------'',
            js ''REVENUS TOTAUX: '' @ number_fixed h 3 (Number (totalIncome data)) @ js '' TND'',
            js ''--------------------------------'',
            []]
         @ (case staffData data of
              None \<Rightarrow> []
            | Some rows \<Rightarrow>
                only_if (length rows > 0)
                  ([js ''PERFORMANCE DU PERSONNEL'',
                    js ''--------------------------------'',
                    js ''Personnel | Sieges | Rev.Sieges | Passes | Rev.Passes | Total'',
                    js ''--------------------------------'']
                   @ map (staff_line h) rows
                   @ [js ''--------------------------------'',
                      js ''TOTAL     | '' @ padStart 6 (template_int (totalSeatsBooked data))
                        @ js '' | '' @ padStart 10 (number_fixed h 2 (Number (totalSeatIncome data)))
                        @ js '' | '' @ padStart 6 (template_int (totalDayPassesSold data))
                        @ js '' | '' @ padStart 10 (number_fixed h 2 (Number (totalDayPassIncome data)))
                        @ js '' | '' @ padStart 10 (number_fixed h 2 (Number (totalIncome data))),
                      js ''--------------------------------'',
                      []]))
         @ [js ''Document genere automatiquement'',
            js ''par le systeme de gestion'',
            []])"

definition generateStatisticsContent :: "host \<Rightarrow> jsdate \<Rightarrow> StatisticsReportData \<Rightarrow> jsstring" where
  "generateStatisticsContent h clock data = join LF (generateStatisticsContent_lines h clock data)"


section \<open>Control facade\<close>

record PrinterConfig = PrinterIpConfig +
  printer_id :: jsstring
  printer_name :: jsstring
  width :: int
  timeout :: int
  model :: jsstring
  enabled :: bool
  isDefault :: bool

definition getDefaultConfig :: PrinterConfig where
  "getDefaultConfig =
     \<lparr>ip = js ''localhost'', port = 9100, printer_id = js ''printer1'', printer_name = js ''Local Printer'',
      width = 48, timeout = 5000, model = js ''ESC/POS'', enabled = True, isDefault = True\<rparr>"

text \<open>\<open>printTicket\<close> and \<open>printStatisticsReport\<close> up to the call of \<open>sendToPrinter\<close>:
  the endpoint and the bytes the delivery is started with.\<close>

definition printTicket ::
  "host \<Rightarrow> TicketData \<Rightarrow> ticket_type \<Rightarrow> js_error + PrinterIpConfig \<times> byte list" where
  "printTicket h ticketData ticketType =
     (let config = (case printerConfig ticketData of
                      Some c \<Rightarrow> c
                    | None \<Rightarrow> PrinterIpConfig.truncate getDefaultConfig)
      in case generateTicketContent h ticketData ticketType of
           Inl e \<Rightarrow> Inl e
         | Inr content \<Rightarrow> Inr (config, convertToESCPOS content))"

definition printStatisticsReport ::
  "host \<Rightarrow> jsdate \<Rightarrow> StatisticsReportData \<Rightarrow> PrinterIpConfig \<times> byte list" where
  "printStatisticsReport h clock reportData =
     (let config = (case printerConfig reportData of
                      Some c \<Rightarrow> c
                    | None \<Rightarrow> PrinterIpConfig.truncate getDefaultConfig);
          content = generateStatisticsContent h clock reportData
      in (config, convertToESCPOS content))"

text \<open>
  A request as \<open>handleRoutes\<close> sees it: the HTTP method (\<open>req.method\<close>), the path of the URL, and the body
  after \<open>JSON.parse\<close>. A body is a text \<open>JSON.parse\<close> rejects, or an object with the
  fields of a ticket, or one with the fields of a report; the handler takes whatever
  object it gets for the type its route expects, so an object of the other kind is one
  with the shared fields only.
\<close>

datatype json_body = Unparsable | TicketJson TicketData | ReportJson StatisticsReportData

record request =
  req_method :: jsstring
  pathname :: jsstring
  body :: json_body

definition no_ticket_fields :: "PrintRequest \<Rightarrow> TicketData" where
  "no_ticket_fields r =
     PrintRequest.extend r
       (TicketData.fields None None None None None None None None None None None None None None)"

definition no_report_fields :: "PrintRequest \<Rightarrow> StatisticsReportData" where
  "no_report_fields r =
     PrintRequest.extend r (StatisticsReportData.fields None None None None None None None)"

definition as_TicketData :: "json_body \<Rightarrow> TicketData option" where
  "as_TicketData b =
     (case b of
        Unparsable \<Rightarrow> None
      | TicketJson t \<Rightarrow> Some t
      | ReportJson r \<Rightarrow> Some (no_ticket_fields (PrintRequest.truncate r)))"

definition as_report :: "json_body \<Rightarrow> StatisticsReportData option" where
  "as_report b =
     (case b of
        Unparsable \<Rightarrow> None
      | ReportJson r \<Rightarrow> Some r
      | TicketJson t \<Rightarrow> Some (no_report_fields (PrintRequest.truncate t)))"

datatype response_body =
    NoContent
  | HealthOk
  | ConfigJson PrinterConfig
  | Message jsstring
  | TestResult bool jsstring
  | ErrorJson js_error

type_synonym response = "nat \<times> response_body"

text \<open>What a route leaves to be awaited: a connection probe, or a delivery whose
  success is answered with the given message.\<close>

datatype job = Probe | Deliver PrinterIpConfig "byte list" jsstring

definition print_route :: "host \<Rightarrow> request \<Rightarrow> ticket_type \<Rightarrow> jsstring \<Rightarrow> response + job" where
  "print_route h req ticketType done =
     (case as_TicketData (body req) of
        None \<Rightarrow> Inl (500, ErrorJson SyntaxError)
      | Some ticketData \<Rightarrow>
          (case printTicket h ticketData ticketType of
             Inl e \<Rightarrow> Inl (500, ErrorJson e)
           | Inr (config, escPosData) \<Rightarrow> Inr (Deliver config escPosData done)))"

definition handleRoutes :: "host \<Rightarrow> jsdate \<Rightarrow> request \<Rightarrow> response + job" where
  "handleRoutes h clock req =
     (if pathname req = js ''/health'' \<and> req_method req = js ''GET'' then Inl (200, HealthOk)
      else if prefix (js ''/api/printer/config/'') (pathname req) \<and> req_method req = js ''GET'' then
        Inl (200, ConfigJson getDefaultConfig)
      else if prefix (js ''/api/printer/config/'') (pathname req) \<and> req_method req = js ''PUT'' then
        Inl (200, Message (js ''printer configuration updated successfully''))
      else if prefix (js ''/api/printer/test/'') (pathname req) \<and> req_method req = js ''POST'' then Inr Probe
      else if pathname req = js ''/api/printer/print/booking'' \<and> req_method req = js ''POST'' then
        print_route h req Booking (js ''booking ticket printed successfully'')
      else if pathname req = js ''/api/printer/print/daypass'' \<and> req_method req = js ''POST'' then
        print_route h req DayPass (js ''day pass ticket printed successfully'')
      else if pathname req = js ''/api/printer/print/exitpass'' \<and> req_method req = js ''POST'' then
        print_route h req ExitPass (js ''exit pass ticket printed successfully'')
      else if pathname req = js ''/api/printer/print/statistics'' \<and> req_method req = js ''POST'' then
        (case as_report (body req) of
           None \<Rightarrow> Inl (500, ErrorJson SyntaxError)
         | Some reportData \<Rightarrow>
             (case printStatisticsReport h clock reportData of
                (config, escPosData) \<Rightarrow>
                  Inr (Deliver config escPosData (js ''statistics report printed successfully''))))
      else Inl (404, ErrorJson (Error (js ''Not found''))))"

definition handleRequest :: "host \<Rightarrow> jsdate \<Rightarrow> request \<Rightarrow> response + job" where
  "handleRequest h clock req =
     (if req_method req = js ''OPTIONS'' then Inl (200, NoContent) else handleRoutes h clock req)"

text \<open>
  The service as the event loop runs it. Each request has a number. When its body has
  been read, \<open>handleRequest\<close> runs to its first \<open>await\<close> of the network: it has
  answered, or it has created a socket of its own and called \<open>connect\<close>. From then on
  the request advances when its socket emits an event. The service keeps no table of
  endpoints and no queue: the only state is what each pending request holds.
\<close>

datatype pending =
    Probing
  | Delivering PrinterIpConfig "byte list" jsstring delivery

record service =
  awaiting :: "nat \<Rightarrow> pending option"
  answered :: "nat \<Rightarrow> response option"

definition new_service :: service where
  "new_service = \<lparr>awaiting = (\<lambda>i. None), answered = (\<lambda>i. None)\<rparr>"

datatype service_event =
    Request nat jsdate request
  | Socket nat socket_event

definition respond :: "nat \<Rightarrow> response \<Rightarrow> service \<Rightarrow> service" where
  "respond i r s =
     s\<lparr>awaiting := (awaiting s)(i := None),
       answered := (answered s)(i := (case answered s i of None \<Rightarrow> Some r | Some r0 \<Rightarrow> Some r0))\<rparr>"

definition settled_response :: "jsstring \<Rightarrow> settle \<Rightarrow> response" where
  "settled_response done r =
     (case r of
        Resolve \<Rightarrow> (200, Message done)
      | Reject m \<Rightarrow> (500, ErrorJson (Error (if m = [] then js ''Internal server error'' else m))))"

fun service_step :: "host \<Rightarrow> service \<Rightarrow> service_event \<Rightarrow> service" where
  "service_step h s (Request i clock req) =
     (if awaiting s i \<noteq> None \<or> answered s i \<noteq> None then s
      else case handleRequest h clock req of
             Inl r \<Rightarrow> respond i r s
           | Inr Probe \<Rightarrow> s\<lparr>awaiting := (awaiting s)(i \<mapsto> Probing)\<rparr>
           | Inr (Deliver config escPosData done) \<Rightarrow>
               s\<lparr>awaiting := (awaiting s)(i \<mapsto> Delivering config escPosData done new_delivery)\<rparr>)"
| "service_step h s (Socket i ev) =
     (case awaiting s i of
        None \<Rightarrow> s
      | Some Probing \<Rightarrow>
          (case ev of
             Connect \<Rightarrow> respond i (200, TestResult True []) s
           | SocketError m \<Rightarrow> respond i (200, TestResult False (js ''Could not connect to printer'')) s
           | Timeout \<Rightarrow> respond i (200, TestResult False (js ''Could not connect to printer'')) s
           | _ \<Rightarrow> s)
      | Some (Delivering config escPosData done d) \<Rightarrow>
          (let d' = sendToPrinter (ip config) (port config) escPosData d ev;
               s' = s\<lparr>awaiting := (awaiting s)(i \<mapsto> Delivering config escPosData done d')\<rparr>
           in case (promise d, promise d') of
                (None, Some r) \<Rightarrow>
                  s'\<lparr>answered := (answered s')(i := (case answered s' i of
                                       None \<Rightarrow> Some (settled_response done r) | Some r0 \<Rightarrow> Some r0))\<rparr>
              | _ \<Rightarrow> s'))"

definition run_service :: "host \<Rightarrow> service_event list \<Rightarrow> service" where
  "run_service h evs = foldl (service_step h) new_service evs"

text \<open>The request an event belongs to, and the events that are configuration updates.\<close>

definition event_id :: "service_event \<Rightarrow> nat" where
  "event_id ev = (case ev of Request i clock req \<Rightarrow> i | Socket i e \<Rightarrow> i)"

definition is_put_config :: "service_event \<Rightarrow> bool" where
  "is_put_config ev =
     (case ev of
        Request i clock req \<Rightarrow>
          prefix (js ''/api/printer/config/'') (pathname req) \<and> req_method req = js ''PUT''
      | Socket i e \<Rightarrow> False)"

text \<open>The endpoint, the buffer and the delivery state of a pending print request.\<close>

definition endpoint_of :: "service \<Rightarrow> nat \<Rightarrow> PrinterIpConfig option" where
  "endpoint_of s i =
     (case awaiting s i of Some (Delivering config escPosData done d) \<Rightarrow> Some config | _ \<Rightarrow> None)"

definition buffer_of :: "service \<Rightarrow> nat \<Rightarrow> byte list option" where
  "buffer_of s i =
     (case awaiting s i of Some (Delivering config escPosData done d) \<Rightarrow> Some escPosData
      | _ \<Rightarrow> None)"

definition delivery_of :: "service \<Rightarrow> nat \<Rightarrow> delivery option" where
  "delivery_of s i =
     (case awaiting s i of Some (Delivering config escPosData done d) \<Rightarrow> Some d | _ \<Rightarrow> None)"

section \<open>Format, then encode\<close>



section \<open>Example requests\<close>

text \<open>The booking of the repository's test script, with a station fee of 0.15 per seat:
  three seats, base price 5.0, total 15.45, created 2024-01-15 10:30 UTC.\<close>

definition example_booking :: TicketData where
  "example_booking =
     \<lparr>createdBy = Some (js ''Agent Test''),
      createdAt = JString (js ''2024-01-15T10:30:00.000Z''),
      printerConfig = Some \<lparr>ip = js ''localhost'', port = 9100\<rparr>,
      licensePlate = Some (js ''123 TU 456''),
      destinationName = Some (js ''Monastir''),
      routeName = Some (js ''Ksar Hellal - Monastir''),
      seatNumber = Some 3,
      totalAmount = Some (round_to_double (1545 / 100)),
      stationFee = Some (round_to_double (15 / 100)),
      stationName = Some (js ''Station Ksar Hellal''),
      vehicleCapacity = None,
      basePrice = Some (Finite 5),
      exitPassCount = None,
      companyName = None,
      companyLogo = None,
      staffFirstName = None,
      staffLastName = None\<rparr>"

text \<open>The request that prints it, and the bytes of its ticket on a host in UTC.\<close>

definition booking_request :: request where
  "booking_request =
     \<lparr>req_method = js ''POST'', pathname = js ''/api/printer/print/booking'',
      body = TicketJson example_booking\<rparr>"

definition example_buffer :: "byte list" where
  "example_buffer =
     convertToESCPOS
       (join LF (ticket_header
                 @ booking_lines host_utc example_booking (Finite (4348788390179635 / 2 ^ 48))
                 @ ticket_footer))"

text \<open>The handlers of a delivery of two bytes to \<open>localhost:9100\<close>.\<close>

definition example_sendToPrinter :: "delivery \<Rightarrow> socket_event \<Rightarrow> delivery" where
  "example_sendToPrinter = sendToPrinter (js ''localhost'') 9100 [0x1B, 0x40]"

definition example_sendToPrinter_electron :: "delivery \<Rightarrow> socket_event \<Rightarrow> delivery" where
  "example_sendToPrinter_electron = sendToPrinter_electron (js ''localhost'') 9100 [0x1B, 0x40]"


text \<open>The number of code units after the last full stop of a text, if it has one.\<close>

definition decimals :: "jsstring \<Rightarrow> nat option" where
  "decimals s =
     (if 0x2E \<in> set s then Some (length (takeWhile (\<lambda>c. c \<noteq> 0x2E) (rev s))) else None)"

section \<open>Evaluation of the number model\<close>

lemma digits_of_numeral [simp]:
  "digits_of (numeral k) =
     (if numeral k < (10::nat) then [of_nat (48 + numeral k)]
      else digits_of (numeral k div 10) @ [of_nat (48 + numeral k mod 10)])"
  by (rule digits_of.simps)

lemma digits_of_0 [simp]: "digits_of 0 = [0x30]"
  by (simp add: digits_of.simps)

lemma digits_of_1 [simp]: "digits_of (Suc 0) = [0x31]" "digits_of 1 = [0x31]"
  by (simp_all add: digits_of.simps)

lemma floor_rat_numeral_divide [simp]:
  "\<lfloor>numeral a / numeral b :: rat\<rfloor> = numeral a div numeral b"
  using floor_divide_of_int_eq [of "numeral a" "numeral b", where ?'a = rat] by simp

lemma pow2_pos [simp]: "0 < pow2 k"
  by (simp add: pow2_def)

lemma pow2_nat: "pow2 (int n) = 2 ^ n"
  by (simp add: pow2_def)

lemma pow2_neg: "0 < n \<Longrightarrow> pow2 (- int n) = 1 / 2 ^ n"
  by (simp add: pow2_def)

lemma floorlog_eqI: "2 ^ k \<le> n \<Longrightarrow> n < 2 ^ Suc k \<Longrightarrow> floorlog 2 n = Suc k"
  using floorlog_leI [of n 2 "Suc k"] floorlog_geI [of 2 "Suc k" n] by simp

lemma floorlog_nat_eqI:
  assumes "(2::int) ^ k \<le> m" "m < 2 ^ Suc k"
  shows "floorlog 2 (nat m) = Suc k"
proof -
  have "0 \<le> m" using assms(1) by (rule order.trans [rotated]) simp
  then obtain n where n: "m = int n" by (auto elim: nonneg_int_cases)
  have "int (2 ^ k) \<le> int n" "int n < int (2 ^ Suc k)"
    using assms by (simp_all add: n)
  then have "2 ^ k \<le> n" "n < 2 ^ Suc k"
    by (simp_all only: of_nat_le_iff of_nat_less_iff)
  then show ?thesis
    by (simp add: n floorlog_eqI)
qed

lemma binary_exponent_eq:
  assumes "pow2 e \<le> a" "a < pow2 (e + 1)"
  shows "binary_exponent a = e"
proof (cases "1 \<le> a")
  case True
  have e0: "0 \<le> e"
  proof (rule ccontr)
    assume "\<not> 0 \<le> e"
    then have "e + 1 \<le> 0" by simp
    then have "pow2 (e + 1) \<le> 1" by (auto simp: pow2_def divide_le_eq_1 intro: order.trans [OF _ one_le_power])
    with assms(2) True show False by simp
  qed
  define k where "k = nat e"
  have e: "e = int k" using e0 by (simp add: k_def)
  have lo: "(2::rat) ^ k \<le> a" and hi: "a < 2 ^ Suc k"
    using assms by (simp_all add: e pow2_def nat_add_distrib)
  have "of_int (2 ^ k) \<le> a" using lo by simp
  then have l: "(2::int) ^ k \<le> \<lfloor>a\<rfloor>" by (simp only: le_floor_iff)
  have "a < of_int (2 ^ Suc k)" using hi by simp
  then have h: "\<lfloor>a\<rfloor> < (2::int) ^ Suc k" by (simp only: floor_less_iff)
  have "floorlog 2 (nat \<lfloor>a\<rfloor>) = Suc k"
    using l h by (rule floorlog_nat_eqI)
  with True show ?thesis by (simp add: binary_exponent_def e)
next
  case False
  have a0: "0 < a" using assms(1) pow2_pos [of e] by (rule less_le_trans [rotated])
  have en: "e < 0"
  proof (rule ccontr)
    assume "\<not> e < 0"
    then have "1 \<le> pow2 e" by (simp add: pow2_def)
    with assms(1) False show False by simp
  qed
  define k where "k = nat (- e - 1)"
  have e: "e = - int (Suc k)" using en by (simp add: k_def)
  have p: "pow2 (- int j) = 1 / 2 ^ j" for j
    by (cases j) (simp_all add: pow2_def nat_add_distrib)
  have lo: "1 / 2 ^ Suc k \<le> a"
    using assms(1) p [of "Suc k"] by (simp only: e)
  have "e + 1 = - int k" by (simp add: e)
  then have hi: "a < 1 / 2 ^ k"
    using assms(2) p [of k] by simp
  have i1: "1 / a \<le> 2 ^ Suc k"
    using lo a0 by (simp add: field_simps)
  have i2: "2 ^ k < 1 / a"
    using hi a0 by (simp add: field_simps)
  have "1 / a \<le> of_int (2 ^ Suc k)" using i1 by simp
  then have c1: "\<lceil>1 / a\<rceil> \<le> 2 ^ Suc k" by (simp only: ceiling_le_iff)
  have "of_int (2 ^ k) < 1 / a" using i2 by simp
  then have c2: "2 ^ k < \<lceil>1 / a\<rceil>" by (simp only: less_ceiling_iff)
  have "floorlog 2 (nat (\<lceil>1 / a\<rceil> - 1)) = Suc k"
    using c1 c2 by (intro floorlog_nat_eqI) simp_all
  with False show ?thesis by (simp add: binary_exponent_def e)
qed

lemma round_half_even_eq:
  assumes "\<bar>x - of_int n\<bar> < 1 / 2 \<or> \<bar>x - of_int n\<bar> = 1 / 2 \<and> even n"
  shows "round_half_even x = n"
proof -
  define m where "m = \<lfloor>x\<rfloor>"
  have m: "of_int m \<le> x" "x < of_int m + 1"
    by (simp_all add: m_def) linarith
  from assms consider "\<bar>x - of_int n\<bar> < 1 / 2" | "\<bar>x - of_int n\<bar> = 1 / 2" "even n" by blast
  then show ?thesis
  proof cases
    case 1
    then have "of_int n - 1 / 2 < x" "x < of_int n + 1 / 2" by linarith+
    with m have "of_int (n - 1) < (of_int m + 1 :: rat)" "of_int m < (of_int n + 1 :: rat)"
      by simp_all
    then have "n - 1 < m + 1" "m < n + 1"
      by (metis of_int_less_iff of_int_add of_int_1)+
    then consider "m = n" | "m = n - 1" by linarith
    then show ?thesis
    proof cases
      case 1
      with \<open>x < of_int n + 1 / 2\<close> show ?thesis
        by (simp add: round_half_even_def Let_def m_def [symmetric] algebra_simps)
    next
      case 2
      with \<open>of_int n - 1 / 2 < x\<close> show ?thesis
        by (simp add: round_half_even_def Let_def m_def [symmetric] algebra_simps)
    qed
  next
    case 2
    then consider "x = of_int n + 1 / 2" | "x = of_int n - 1 / 2" by (auto simp: abs_if split: if_splits) 
    then show ?thesis
    proof cases
      case 1
      then have "\<lfloor>x\<rfloor> = n" by (simp add: floor_unique)
      with 1 2 show ?thesis by (simp add: round_half_even_def Let_def)
    next
      case 2
      then have f: "\<lfloor>x\<rfloor> = n - 1" by (intro floor_unique) simp_all
      with 2 \<open>even n\<close> show ?thesis by (simp add: round_half_even_def Let_def)
    qed
  qed
qed


text \<open>A value is rounded to \<open>n \<times> 2\<^sup>e\<^sup>-\<^sup>5\<^sup>2\<close> when \<open>e\<close> is its binary exponent (at
  least that of the smallest normal double) and \<open>n\<close> is the nearest integer to its
  quotient by \<open>2\<^sup>e\<^sup>-\<^sup>5\<^sup>2\<close>, the even one on a tie.\<close>

lemma round_to_double_eq:
  assumes "pow2 e \<le> a" "a < pow2 (e + 1)" "- 1022 \<le> e"
    and "\<bar>a / pow2 (e - 52) - of_int n\<bar> < 1 / 2
         \<or> \<bar>a / pow2 (e - 52) - of_int n\<bar> = 1 / 2 \<and> even n"
    and "of_int n * pow2 (e - 52) < pow2 1024"
  shows "round_to_double a = Finite (of_int n * pow2 (e - 52))"
proof -
  have a: "0 < a" using pow2_pos [of e] assms(1) by (rule less_le_trans)
  have b: "binary_exponent a = e" using assms(1,2) by (rule binary_exponent_eq)
  have m: "max e (- 1022) = e" using assms(3) by simp
  have r: "round_half_even (a / pow2 (e - 52)) = n" using assms(4) by (rule round_half_even_eq)
  show ?thesis
    using a assms(5) by (simp add: round_to_double_def Let_def b m r not_le [symmetric])
qed

section \<open>Properties of the configuration store\<close>


subsection \<open>The regular-expression matcher decides membership in the language\<close>

lemmas ip_regex_defs = isValidIp_def ipRegex_def octet_def js_def Sym_def Chars_def Opt_def

lemma nullable_iff: "nullable r \<longleftrightarrow> [] \<in> lang r"
  by (induction r) auto

lemma lang_deriv: "s \<in> lang (deriv c r) \<longleftrightarrow> c # s \<in> lang r"
proof (induction r arbitrary: s)
  case (Seq r1 r2)
  show ?case
    by (auto simp: Seq nullable_iff Cons_eq_append_conv)
qed auto

lemma matches_lang: "matches r s \<longleftrightarrow> s \<in> lang r"
  by (induction s arbitrary: r) (auto simp: nullable_iff lang_deriv)

lemma isValidIp_lang: "isValidIp s \<longleftrightarrow> s \<in> lang ipRegex"
  by (simp add: isValidIp_def matches_lang)

subsection \<open>\<open>getConfig\<close> on a service whose default object is untouched\<close>

lemma getConfig_no_item:
  "localStorage svc = NoItem \<Longrightarrow> getConfig_value svc = (svc, DEFAULT_CONFIG svc)"
  by (simp add: getConfig_value_def getConfig_def deref_def)

lemma getConfig_other:
  "localStorage svc = Stored c \<Longrightarrow> ip c \<noteq> js ''192.168.192.168'' \<Longrightarrow>
   getConfig_value svc = (svc, c)"
  by (simp add: getConfig_value_def getConfig_def deref_def)

lemma getConfig_stale:
  "localStorage svc = Stored c \<Longrightarrow> ip c = js ''192.168.192.168'' \<Longrightarrow>
   \<not> setItem_throws svc \<Longrightarrow>
   getConfig_value svc = (svc\<lparr>localStorage := Stored (DEFAULT_CONFIG svc)\<rparr>, DEFAULT_CONFIG svc)"
  by (simp add: getConfig_value_def getConfig_def deref_def saveConfig_def)

lemma getConfig_fresh_service:
  "\<not> throws \<Longrightarrow> ip c = js ''192.168.192.168'' \<Longrightarrow>
   getConfig_value (new_PrinterIpConfigService (Stored c) throws) =
     (new_PrinterIpConfigService (Stored \<lparr>ip = js ''192.168.192.12'', port = 9100\<rparr>) throws,
      \<lparr>ip = js ''192.168.192.12'', port = 9100\<rparr>)"
  by (simp add: getConfig_value_def getConfig_def deref_def saveConfig_def
      new_PrinterIpConfigService_def)

text \<open>
  C6. The migration in \<open>getConfig\<close> writes and returns the service's
  \<open>DEFAULT_CONFIG\<close> object, which the source means to be the address 192.168.192.12,
  port 9100 (its log line says so). \<open>setPrinterIp\<close> assigns to the object
  \<open>getConfig\<close> returned, and with nothing stored that object is \<open>DEFAULT_CONFIG\<close>
  itself. On a new service with empty storage, \<open>setPrinterIp("192.168.192.168")\<close>
  followed by \<open>getConfig()\<close> returns the stale address 192.168.192.168 and leaves it
  stored: the default has become the stale address.
\<close>

theorem getConfig_after_setPrinterIp_stale:
  "getConfig_value (setPrinterIp (new_PrinterIpConfigService NoItem False) (js ''192.168.192.168''))
   = (\<lparr>DEFAULT_CONFIG = \<lparr>ip = js ''192.168.192.168'', port = 9100\<rparr>,
       localStorage = Stored \<lparr>ip = js ''192.168.192.168'', port = 9100\<rparr>,
       setItem_throws = False\<rparr>,
      \<lparr>ip = js ''192.168.192.168'', port = 9100\<rparr>)"
  by (simp add: getConfig_value_def getConfig_def deref_def saveConfig_def setPrinterIp_def
      new_PrinterIpConfigService_def)

subsection \<open>Validation happens in the caller of the store\<close>

text \<open>
  C5, as stated, fails: \<open>saveConfig\<close> stores the host 999.999.999.999, which
  \<open>isValidIp\<close> rejects, over a previously stored endpoint.
\<close>

theorem saveConfig_stores_invalid_host:
  "\<not> isValidIp (js ''999.999.999.999'') \<and>
   localStorage (saveConfig (new_PrinterIpConfigService (Stored \<lparr>ip = js ''10.0.0.5'', port = 9100\<rparr>) False)
                   \<lparr>ip = js ''999.999.999.999'', port = 9100\<rparr>)
     = Stored \<lparr>ip = js ''999.999.999.999'', port = 9100\<rparr>"
  by (simp add: saveConfig_def new_PrinterIpConfigService_def ip_regex_defs)

text \<open>
  C5, amended. The check is made by \<open>handleSaveIp\<close>, the caller of \<open>setPrinterIp\<close>:
  for every entered text whose trimmed form \<open>isValidIp\<close> rejects (the empty text, 
  999.999.999.999, any host name), it reports an error and the service, with its stored
  endpoint, is exactly as before.
\<close>

theorem handleSaveIp_rejects:
  assumes "\<not> isValidIp (trim newIp)"
  shows "handleSaveIp svc newIp =
           (svc, SaveError (if trim newIp = [] then msg_empty_ip else msg_invalid_ip))"
  using assms by (simp add: handleSaveIp_def)

theorem handleSaveIp_rejects_witness:
  "\<not> isValidIp (trim (js '' 999.999.999.999 '')) \<and>
   handleSaveIp (new_PrinterIpConfigService (Stored \<lparr>ip = js ''10.0.0.5'', port = 9100\<rparr>) False)
       (js '' 999.999.999.999 '')
     = (new_PrinterIpConfigService (Stored \<lparr>ip = js ''10.0.0.5'', port = 9100\<rparr>) False,
        SaveError msg_invalid_ip)"
proof -
  have t: "trim (js '' 999.999.999.999 '') = js ''999.999.999.999''"
    by (simp add: trim_def js_def is_js_space_def)
  have h: "\<not> isValidIp (trim (js '' 999.999.999.999 ''))"
    unfolding t by (simp add: ip_regex_defs)
  have ne: "trim (js '' 999.999.999.999 '') \<noteq> []"
    unfolding t by (simp add: js_def)
  show ?thesis
    using h ne handleSaveIp_rejects [OF h] by simp
qed


section \<open>Properties of the protocol encoder\<close>

lemma LF_not_surrogate [simp]: "\<not> is_low_surrogate 0x0A" "\<not> is_high_surrogate 0x0A"
  by (simp_all add: is_low_surrogate_def is_high_surrogate_def)

lemma utf8_code_point_LF [simp]: "utf8_code_point 10 = [0x0A]"
  unfolding utf8_code_point_def by simp

text \<open>A line feed never pairs with a surrogate before it, so encoding distributes over
  a line break.\<close>

lemma utf8_append_LF: "utf8 (xs @ 0x0A # ys) = utf8 xs @ 0x0A # utf8 ys"
proof (induction xs rule: utf8.induct)
  case 1
  show ?case by simp
next
  case (2 u us)
  show ?case
  proof (cases us)
    case Nil
    then show ?thesis by simp
  next
    case (Cons v vs)
    with 2 show ?thesis by simp
  qed
qed

lemma utf8_join_LF: "utf8 (join [0x0A] ls) = join [0x0A] (map utf8 ls)"
  by (induction ls rule: induct_list012) (simp_all add: utf8_append_LF)

text \<open>
  C1, as stated, fails for the encoder of the second service file: for the lines
  \<open>A\<close> and \<open>B\<close> it emits initialize, the text, three line feeds and the cut, with no
  character-table or alignment command.
\<close>

theorem convertToESCPOS_part004_no_alignment:
  "convertToESCPOS_part004 (join [0x0A] [js ''A'', js ''B'']) =
     [0x1B, 0x40, 0x41, 0x0A, 0x42, 0x0A, 0x0A, 0x0A, 0x1D, 0x56, 0x00]
   \<and> \<not> prefix ([0x1B, 0x40] @ [0x1B, 0x74, 0x02] @ [0x1B, 0x61, 0x01])
          (convertToESCPOS_part004 (join [0x0A] [js ''A'', js ''B'']))"
  by (simp add: convertToESCPOS_part004_def js_def utf8_code_point_def
      is_high_surrogate_def is_low_surrogate_def)

text \<open>
  C1, amended. For every list of lines, the encoder of
  \<open>src/services/embeddedPrinterService.ts\<close> emits exactly: initialize (1B 40),
  character table (1B 74 02), centre (1B 61 01), the UTF-8 bytes of the lines separated
  by single line feeds, align left (1B 61 00), four line feeds, cut (1D 56 00). The
  encoder of the second service file emits exactly: initialize, the same text bytes,
  three line feeds, cut. Both buffers begin with 1B 40 and end with 1D 56 00.
\<close>

theorem convertToESCPOS_layout:
  "convertToESCPOS (join [0x0A] ls) =
     [0x1B, 0x40] @ [0x1B, 0x74, 0x02] @ [0x1B, 0x61, 0x01] @ join [0x0A] (map utf8 ls)
       @ [0x1B, 0x61, 0x00] @ [0x0A, 0x0A, 0x0A, 0x0A] @ [0x1D, 0x56, 0x00]
   \<and> convertToESCPOS_part004 (join [0x0A] ls) =
     [0x1B, 0x40] @ join [0x0A] (map utf8 ls) @ [0x0A, 0x0A, 0x0A] @ [0x1D, 0x56, 0x00]
   \<and> prefix [0x1B, 0x40] (convertToESCPOS (join [0x0A] ls))
   \<and> suffix [0x1D, 0x56, 0x00] (convertToESCPOS (join [0x0A] ls))
   \<and> prefix [0x1B, 0x40] (convertToESCPOS_part004 (join [0x0A] ls))
   \<and> suffix [0x1D, 0x56, 0x00] (convertToESCPOS_part004 (join [0x0A] ls))"
  by (simp add: convertToESCPOS_def convertToESCPOS_part004_def utf8_join_LF suffix_def)


section \<open>Properties of the delivery channel\<close>

lemmas settle_defs = resolve_def reject_def Let_def

lemma once_new: "once new_delivery"
  by (simp add: once_def new_delivery_def)

lemma once_sendToPrinter: "once d \<Longrightarrow> once (sendToPrinter host prt data d ev)"
  by (cases ev) (auto simp: once_def settle_defs split: option.splits)

lemma once_sendToPrinter_electron: "once d \<Longrightarrow> once (sendToPrinter_electron host prt data d ev)"
  by (cases ev) (auto simp: once_def settle_defs split: option.splits)

lemma once_sendToPrinter_part004: "once d \<Longrightarrow> once (sendToPrinter_part004 host prt data d ev)"
  by (cases ev) (auto simp: once_def settle_defs split: option.splits)

lemma once_foldl:
  assumes "\<And>d ev. once d \<Longrightarrow> once (H d ev)" and "once d"
  shows "once (foldl H d evs)"
  using assms(2) by (induction evs arbitrary: d) (simp_all add: assms(1))

lemma kept_sendToPrinter:
  "isResolved d \<Longrightarrow> isResolved (sendToPrinter host prt data d ev) \<and>
     calls (sendToPrinter host prt data d ev) = calls d"
  by (cases ev) (auto simp: settle_defs split: option.splits)

lemma kept_sendToPrinter_electron:
  "isResolved d \<Longrightarrow> isResolved (sendToPrinter_electron host prt data d ev) \<and>
     calls (sendToPrinter_electron host prt data d ev) = calls d"
  by (cases ev) (auto simp: settle_defs split: option.splits)

lemma kept_sendToPrinter_part004:
  "isResolved d \<Longrightarrow> isResolved (sendToPrinter_part004 host prt data d ev) \<and>
     calls (sendToPrinter_part004 host prt data d ev) = calls d"
  by (cases ev) (auto simp: settle_defs split: option.splits)

lemma kept_foldl:
  assumes "\<And>d ev. isResolved d \<Longrightarrow> isResolved (H d ev) \<and> calls (H d ev) = calls d"
    and "isResolved d"
  shows "isResolved (foldl H d evs) \<and> calls (foldl H d evs) = calls d"
  using assms(2) by (induction evs arbitrary: d) (simp_all add: assms(1))

lemma settling_sendToPrinter:
  "settling ev \<Longrightarrow> isResolved (sendToPrinter host prt data d ev)"
  by (cases ev) (auto simp: settling_def settle_defs split: option.splits)

lemma settling_sendToPrinter_electron:
  "settling ev \<Longrightarrow> isResolved (sendToPrinter_electron host prt data d ev)"
  by (cases ev) (auto simp: settling_def settle_defs split: option.splits)

lemma timer_sendToPrinter:
  "timers d > 0 \<Longrightarrow> isResolved (sendToPrinter host prt data d TimerFired)"
  by (auto simp: settle_defs)

lemma timer_sendToPrinter_electron:
  "timers d > 0 \<Longrightarrow> isResolved (sendToPrinter_electron host prt data d TimerFired)"
  by (auto simp: settle_defs)

lemma guarded_sendToPrinter:
  "isResolved d \<Longrightarrow> guarded ev \<Longrightarrow> sendToPrinter host prt data d ev = d"
  by (cases ev) (auto simp: guarded_def)

lemma guarded_sendToPrinter_electron:
  "isResolved d \<Longrightarrow> guarded ev \<Longrightarrow> sendToPrinter_electron host prt data d ev = d"
  by (cases ev) (auto simp: guarded_def)

lemma settles_once_generic:
  assumes once: "\<And>d ev. once d \<Longrightarrow> once (H d ev)"
    and kept: "\<And>d ev. isResolved d \<Longrightarrow> isResolved (H d ev) \<and> calls (H d ev) = calls d"
    and settling: "\<And>d ev. settling ev \<Longrightarrow> isResolved (H d ev)"
    and timer: "\<And>d. timers d > 0 \<Longrightarrow> isResolved (H d TimerFired)"
  shows "length (calls (deliver H evs)) \<le> 1"
    and "isResolved (deliver H evs) \<longleftrightarrow> promise (deliver H evs) \<noteq> None"
    and "isResolved (deliver H evs) \<Longrightarrow>
           promise (deliver H (evs @ evs')) = promise (deliver H evs) \<and>
           calls (deliver H (evs @ evs')) = calls (deliver H evs)"
    and "settling ev \<or> ev = TimerFired \<and> timers (deliver H evs) > 0 \<Longrightarrow>
           length (calls (deliver H (evs @ ev # evs'))) = 1"
proof -
  have o: "once (deliver H es)" for es
    unfolding deliver_def by (rule once_foldl [OF once once_new])
  show "length (calls (deliver H evs)) \<le> 1"
    using o [of evs] by (auto simp: once_def split: if_splits)
  show "isResolved (deliver H evs) \<longleftrightarrow> promise (deliver H evs) \<noteq> None"
    using o [of evs] by (auto simp: once_def promise_def split: if_splits list.splits)
  have k: "isResolved (deliver H es) \<Longrightarrow>
        isResolved (deliver H (es @ es')) \<and> calls (deliver H (es @ es')) = calls (deliver H es)" for es es'
    unfolding deliver_def foldl_append by (rule kept_foldl [OF kept])
  show "isResolved (deliver H evs) \<Longrightarrow>
           promise (deliver H (evs @ evs')) = promise (deliver H evs) \<and>
           calls (deliver H (evs @ evs')) = calls (deliver H evs)"
    using k [of evs evs'] by (simp add: promise_def)
  show "length (calls (deliver H (evs @ ev # evs'))) = 1"
    if "settling ev \<or> ev = TimerFired \<and> timers (deliver H evs) > 0"
  proof -
    have "isResolved (H (deliver H evs) ev)"
      using that settling timer by auto
    then have "isResolved (deliver H (evs @ [ev]))"
      by (simp add: deliver_def)
    from k [OF this, of evs'] have "isResolved (deliver H (evs @ ev # evs'))"
      by simp
    with o [of "evs @ ev # evs'"] show ?thesis
      by (simp add: once_def)
  qed
qed


lemma late_callback_sendToPrinter:
  "isResolved d \<Longrightarrow>
     sendToPrinter host prt data d (WriteCallback e) =
       d\<lparr>dataWritten := True, timers := timers d + 1\<rparr>"
  by (cases e) simp_all

lemma late_callback_sendToPrinter_electron:
  "isResolved d \<Longrightarrow>
     sendToPrinter_electron host prt data d (WriteCallback e) =
       d\<lparr>dataWritten := True, ended := True, timers := timers d + 1\<rparr>"
  by (cases e) simp_all

lemma late_timer_sendToPrinter:
  "isResolved d \<Longrightarrow> sendToPrinter host prt data d TimerFired = d\<lparr>timers := timers d - 1\<rparr>"
  by (simp add: Let_def)

lemma late_timer_sendToPrinter_electron:
  "isResolved d \<Longrightarrow>
     sendToPrinter_electron host prt data d TimerFired = d\<lparr>timers := timers d - 1\<rparr>"
  by (simp add: Let_def)

lemma timers_update_neq: "d\<lparr>dataWritten := w, timers := timers d + 1\<rparr> \<noteq> d"
proof
  assume "d\<lparr>dataWritten := w, timers := timers d + 1\<rparr> = d"
  then have "timers (d\<lparr>dataWritten := w, timers := timers d + 1\<rparr>) = timers d"
    by simp
  then show False by simp
qed

lemma timers_ended_update_neq: "d\<lparr>dataWritten := w, ended := x, timers := timers d + 1\<rparr> \<noteq> d"
proof
  assume "d\<lparr>dataWritten := w, ended := x, timers := timers d + 1\<rparr> = d"
  then have "timers (d\<lparr>dataWritten := w, ended := x, timers := timers d + 1\<rparr>) = timers d"
    by simp
  then show False by simp
qed

lemma pending_foldl:
  assumes "\<And>d ev. \<not> isResolved d \<Longrightarrow> calls d = [] \<Longrightarrow> ev = Connect \<or> ev = WriteCallback None \<Longrightarrow>
             \<not> isResolved (H d ev) \<and> calls (H d ev) = []"
    and "\<forall>ev\<in>set evs. ev = Connect \<or> ev = WriteCallback None"
    and "\<not> isResolved d" "calls d = []"
  shows "\<not> isResolved (foldl H d evs) \<and> calls (foldl H d evs) = []"
  using assms(2-4)
proof (induction evs arbitrary: d)
  case Nil
  then show ?case by simp
next
  case (Cons ev evs)
  have "\<not> isResolved (H d ev) \<and> calls (H d ev) = []"
    using assms(1) [of d ev] Cons.prems by simp
  then show ?case
    using Cons.IH [of "H d ev"] Cons.prems(1) by simp
qed

lemma pending_sendToPrinter:
  "\<not> isResolved d \<Longrightarrow> calls d = [] \<Longrightarrow> ev = Connect \<or> ev = WriteCallback None \<Longrightarrow>
     \<not> isResolved (sendToPrinter host prt data d ev) \<and> calls (sendToPrinter host prt data d ev) = []"
  by auto

lemma pending_sendToPrinter_electron:
  "\<not> isResolved d \<Longrightarrow> calls d = [] \<Longrightarrow> ev = Connect \<or> ev = WriteCallback None \<Longrightarrow>
     \<not> isResolved (sendToPrinter_electron host prt data d ev)
     \<and> calls (sendToPrinter_electron host prt data d ev) = []"
  by auto

text \<open>
  C10, as stated, fails in two places. The write callback is not under the
  \<open>isResolved\<close> guard: its \<open>else\<close> branch runs whenever the delivery is settled already,
  with or without an error. After a timeout has rejected the promise, a write callback
  carrying an error leaves the rejection in place but sets \<open>dataWritten\<close> and starts a
  timer (and, in \<open>electron/main.ts\<close>, ends the socket). And a socket event need not
  settle the delivery: after \<open>connect\<close> and a successful write callback the promise is
  still pending.
\<close>

theorem late_write_callback_changes_state:
  "promise (deliver example_sendToPrinter [Connect, Timeout])
     = Some (Reject (js ''Printer connection timeout at localhost:9100''))
   \<and> promise (deliver example_sendToPrinter
        [Connect, Timeout, WriteCallback (Some (js ''write after end''))])
     = Some (Reject (js ''Printer connection timeout at localhost:9100''))
   \<and> deliver example_sendToPrinter [Connect, Timeout, WriteCallback (Some (js ''write after end''))]
     \<noteq> deliver example_sendToPrinter [Connect, Timeout]
   \<and> \<not> dataWritten (deliver example_sendToPrinter [Connect, Timeout])
   \<and> timers (deliver example_sendToPrinter [Connect, Timeout]) = 0
   \<and> dataWritten (deliver example_sendToPrinter
        [Connect, Timeout, WriteCallback (Some (js ''write after end''))])
   \<and> timers (deliver example_sendToPrinter
        [Connect, Timeout, WriteCallback (Some (js ''write after end''))]) = 1
   \<and> \<not> ended (deliver example_sendToPrinter_electron [Connect, Timeout])
   \<and> ended (deliver example_sendToPrinter_electron
        [Connect, Timeout, WriteCallback (Some (js ''write after end''))])
   \<and> timers (deliver example_sendToPrinter_electron
        [Connect, Timeout, WriteCallback (Some (js ''write after end''))]) = 1
   \<and> promise (deliver example_sendToPrinter [Connect, WriteCallback None]) = None
   \<and> promise (deliver example_sendToPrinter_electron [Connect, WriteCallback None]) = None"
proof -
  have m: "msg_timeout (js ''localhost'') 9100 = js ''Printer connection timeout at localhost:9100''"
    by (simp add: msg_timeout_def String_of_int_def) (simp add: js_def)
  have a: "deliver example_sendToPrinter [Connect, Timeout] =
     \<lparr>isResolved = True, dataWritten = False,
      calls = [Reject (js ''Printer connection timeout at localhost:9100'')],
      wire = [0x1B, 0x40], timers = 0, destroyed = True, ended = False\<rparr>"
    by (simp add: deliver_def example_sendToPrinter_def new_delivery_def settle_defs m)
  have b: "deliver example_sendToPrinter
        [Connect, Timeout, WriteCallback (Some (js ''write after end''))] =
     \<lparr>isResolved = True, dataWritten = True,
      calls = [Reject (js ''Printer connection timeout at localhost:9100'')],
      wire = [0x1B, 0x40], timers = 1, destroyed = True, ended = False\<rparr>"
    by (simp add: deliver_def example_sendToPrinter_def new_delivery_def settle_defs m)
  have c: "deliver example_sendToPrinter_electron [Connect, Timeout] =
     \<lparr>isResolved = True, dataWritten = False,
      calls = [Reject (js ''Printer connection timeout at localhost:9100'')],
      wire = [0x1B, 0x40], timers = 0, destroyed = True, ended = False\<rparr>"
    by (simp add: deliver_def example_sendToPrinter_electron_def new_delivery_def settle_defs m)
  have d: "deliver example_sendToPrinter_electron
        [Connect, Timeout, WriteCallback (Some (js ''write after end''))] =
     \<lparr>isResolved = True, dataWritten = True,
      calls = [Reject (js ''Printer connection timeout at localhost:9100'')],
      wire = [0x1B, 0x40], timers = 1, destroyed = True, ended = True\<rparr>"
    by (simp add: deliver_def example_sendToPrinter_electron_def new_delivery_def settle_defs m)
  have e: "promise (deliver example_sendToPrinter [Connect, WriteCallback None]) = None"
    "promise (deliver example_sendToPrinter_electron [Connect, WriteCallback None]) = None"
    by (simp_all add: deliver_def example_sendToPrinter_def example_sendToPrinter_electron_def
        new_delivery_def promise_def)
  show ?thesis
    unfolding a b c d using e by (simp add: promise_def)
qed

text \<open>
  C10, amended. For the handlers of \<open>src/services/embeddedPrinterService.ts\<close> and of
  \<open>electron/main.ts\<close>, and every sequence of events: \<open>resolve\<close> and \<open>reject\<close> are
  called at most once in all; \<open>isResolved\<close> is set exactly when the promise is
  settled; after a write error, a socket error, a timeout, a close, or the firing of a
  pending timer there is exactly one call, whatever follows; once settled, no later
  event changes the result; and a later error, timeout or close event leaves the whole
  state as it is. A write callback that comes after the settlement is not a no-op: it
  keeps the result, but sets \<open>dataWritten\<close> and starts one more timer; the firing of a
  timer after the settlement only uses that timer up. And as long as the only events
  are \<open>connect\<close> and successful write callbacks, the promise is pending.
\<close>

theorem sendToPrinter_settles_once:
  assumes "H = sendToPrinter host prt data \<or> H = sendToPrinter_electron host prt data"
  shows "length (calls (deliver H evs)) \<le> 1
    \<and> (isResolved (deliver H evs) \<longleftrightarrow> promise (deliver H evs) \<noteq> None)
    \<and> (settling ev \<or> ev = TimerFired \<and> timers (deliver H evs) > 0 \<longrightarrow>
          length (calls (deliver H (evs @ ev # evs'))) = 1)
    \<and> (isResolved (deliver H evs) \<longrightarrow>
          promise (deliver H (evs @ evs')) = promise (deliver H evs) \<and>
          calls (deliver H (evs @ evs')) = calls (deliver H evs))
    \<and> (isResolved (deliver H evs) \<and> guarded ev \<longrightarrow> H (deliver H evs) ev = deliver H evs)
    \<and> (isResolved (deliver H evs) \<longrightarrow>
          H (deliver H evs) (WriteCallback e) \<noteq> deliver H evs
          \<and> dataWritten (H (deliver H evs) (WriteCallback e))
          \<and> timers (H (deliver H evs) (WriteCallback e)) = timers (deliver H evs) + 1
          \<and> promise (H (deliver H evs) (WriteCallback e)) = promise (deliver H evs))
    \<and> (isResolved (deliver H evs) \<longrightarrow>
          H (deliver H evs) TimerFired
            = (deliver H evs)\<lparr>timers := timers (deliver H evs) - 1\<rparr>)
    \<and> ((\<forall>ev\<in>set evs. ev = Connect \<or> ev = WriteCallback None) \<longrightarrow>
          promise (deliver H evs) = None)"
proof -
  have a: "once d \<Longrightarrow> once (H d e)" for d e
    using assms once_sendToPrinter once_sendToPrinter_electron by blast
  have b: "isResolved d \<Longrightarrow> isResolved (H d e) \<and> calls (H d e) = calls d" for d e
    using assms kept_sendToPrinter kept_sendToPrinter_electron by blast
  have c: "settling e \<Longrightarrow> isResolved (H d e)" for d e
    using assms settling_sendToPrinter settling_sendToPrinter_electron by blast
  have d: "timers d > 0 \<Longrightarrow> isResolved (H d TimerFired)" for d
    using assms timer_sendToPrinter timer_sendToPrinter_electron by blast
  have g: "isResolved d \<Longrightarrow> guarded e \<Longrightarrow> H d e = d" for d e
    using assms guarded_sendToPrinter guarded_sendToPrinter_electron by blast
  have w: "isResolved d \<Longrightarrow>
      H d (WriteCallback e) \<noteq> d \<and> dataWritten (H d (WriteCallback e))
      \<and> timers (H d (WriteCallback e)) = timers d + 1
      \<and> promise (H d (WriteCallback e)) = promise d" for d
    using assms late_callback_sendToPrinter [of d host prt data e]
      late_callback_sendToPrinter_electron [of d host prt data e]
      timers_update_neq [of d True] timers_ended_update_neq [of d True True]
    by (auto simp: promise_def)
  have t: "isResolved d \<Longrightarrow> H d TimerFired = d\<lparr>timers := timers d - 1\<rparr>" for d
    using assms late_timer_sendToPrinter late_timer_sendToPrinter_electron by blast
  have p: "\<not> isResolved d \<Longrightarrow> calls d = [] \<Longrightarrow> ev = Connect \<or> ev = WriteCallback None \<Longrightarrow>
             \<not> isResolved (H d ev) \<and> calls (H d ev) = []" for d ev
    using assms pending_sendToPrinter [of d ev host prt data]
      pending_sendToPrinter_electron [of d ev host prt data] by blast
  have q: "promise (deliver H evs) = None"
    if "\<forall>ev\<in>set evs. ev = Connect \<or> ev = WriteCallback None"
    using pending_foldl [of H evs new_delivery, OF p that]
    by (simp add: deliver_def promise_def new_delivery_def)
  note gen = settles_once_generic [of H, OF a b c d]
  have 1: "length (calls (deliver H evs)) \<le> 1"
    by (rule gen(1))
  have 2: "isResolved (deliver H evs) \<longleftrightarrow> promise (deliver H evs) \<noteq> None"
    by (rule gen(2))
  have 3: "settling ev \<or> ev = TimerFired \<and> timers (deliver H evs) > 0 \<longrightarrow>
          length (calls (deliver H (evs @ ev # evs'))) = 1"
    using gen(4) [of ev evs evs'] by blast
  have 4: "isResolved (deliver H evs) \<longrightarrow>
          promise (deliver H (evs @ evs')) = promise (deliver H evs) \<and>
          calls (deliver H (evs @ evs')) = calls (deliver H evs)"
    using gen(3) [of evs evs'] by blast
  have 5: "isResolved (deliver H evs) \<and> guarded ev \<longrightarrow> H (deliver H evs) ev = deliver H evs"
    using g by blast
  show ?thesis
    using 1 2 3 4 5 w [of "deliver H evs"] t [of "deliver H evs"] q by (intro conjI impI) blast+
qed

theorem sendToPrinter_settles_once_witness:
  "settling Timeout
   \<and> length (calls (deliver example_sendToPrinter
        ([Connect, WriteCallback None] @ Timeout # [TimerFired, Close]))) = 1
   \<and> promise (deliver example_sendToPrinter
        [Connect, WriteCallback None, Timeout, TimerFired, Close]) = Some Resolve
   \<and> promise (deliver example_sendToPrinter [Connect, WriteCallback None]) = None
   \<and> isResolved (deliver example_sendToPrinter_electron [Connect, Timeout])
   \<and> guarded Close
   \<and> example_sendToPrinter_electron (deliver example_sendToPrinter_electron [Connect, Timeout]) Close
       = deliver example_sendToPrinter_electron [Connect, Timeout]
   \<and> promise (deliver example_sendToPrinter_electron
        ([Connect, Timeout] @ [WriteCallback (Some (js ''write after end'')), TimerFired]))
       = promise (deliver example_sendToPrinter_electron [Connect, Timeout])
   \<and> example_sendToPrinter_electron (deliver example_sendToPrinter_electron [Connect, Timeout])
        (WriteCallback (Some (js ''write after end'')))
       \<noteq> deliver example_sendToPrinter_electron [Connect, Timeout]
   \<and> timers (example_sendToPrinter_electron (deliver example_sendToPrinter_electron [Connect, Timeout])
        (WriteCallback (Some (js ''write after end'')))) = 1"
proof -
  have s: "settling Timeout" "guarded Close"
    by (simp_all add: settling_def guarded_def)
  have p: "promise (deliver example_sendToPrinter
        [Connect, WriteCallback None, Timeout, TimerFired, Close]) = Some Resolve"
    by (simp add: deliver_def example_sendToPrinter_def new_delivery_def promise_def settle_defs)
  have r: "isResolved (deliver example_sendToPrinter_electron [Connect, Timeout])"
    "timers (deliver example_sendToPrinter_electron [Connect, Timeout]) = 0"
    by (simp_all add: deliver_def example_sendToPrinter_electron_def new_delivery_def settle_defs)
  have q: "\<forall>ev\<in>set [Connect, WriteCallback None]. ev = Connect \<or> ev = WriteCallback None"
    by simp
  show ?thesis
    using s p r q
      sendToPrinter_settles_once
        [of example_sendToPrinter "js ''localhost''" 9100 "[0x1B, 0x40]"
            "[Connect, WriteCallback None]" Timeout "[TimerFired, Close]"]
      sendToPrinter_settles_once
        [of example_sendToPrinter_electron "js ''localhost''" 9100 "[0x1B, 0x40]"
            "[Connect, Timeout]" Close
            "[WriteCallback (Some (js ''write after end'')), TimerFired]"
            "Some (js ''write after end'')"]
    by (simp add: example_sendToPrinter_def example_sendToPrinter_electron_def)
qed

lemma deliver_snoc: "deliver H (evs @ [ev]) = H (deliver H evs) ev"
  by (simp add: deliver_def)

lemma written_sendToPrinter:
  "\<not> isResolved (deliver (sendToPrinter host prt data) evs) \<Longrightarrow>
   dataWritten (deliver (sendToPrinter host prt data) evs) \<longleftrightarrow> WriteCallback None \<in> set evs"
proof (induction evs rule: rev_induct)
  case Nil
  show ?case by (simp add: deliver_def new_delivery_def)
next
  case (snoc ev evs)
  let ?d = "deliver (sendToPrinter host prt data) evs"
  have u: "\<not> isResolved ?d"
    using snoc.prems kept_sendToPrinter [of ?d host prt data ev] by (auto simp: deliver_snoc)
  from snoc.IH [OF u] snoc.prems u show ?case
    by (cases ev) (auto simp: deliver_snoc settle_defs split: option.splits if_splits)
qed

lemma timeout_sendToPrinter:
  "\<not> isResolved d \<Longrightarrow>
   isResolved (sendToPrinter host prt data d Timeout) \<and>
   calls (sendToPrinter host prt data d Timeout) =
     calls d @ [if dataWritten d then Resolve else Reject (msg_timeout host prt)]"
  by (simp add: settle_defs)

lemma timeout_sendToPrinter_part004:
  "\<not> isResolved d \<Longrightarrow>
   isResolved (sendToPrinter_part004 host prt data d Timeout) \<and>
   calls (sendToPrinter_part004 host prt data d Timeout) =
     calls d @ [Reject (js ''Printer connection timeout'')]"
  by (simp add: settle_defs)

lemma unsettled_no_calls:
  assumes "\<And>d ev. once d \<Longrightarrow> once (H d ev)" and "\<not> isResolved (deliver H evs)"
  shows "calls (deliver H evs) = []"
  using once_foldl [of H new_delivery evs, OF assms(1) once_new] assms(2)
  by (simp add: deliver_def once_def)

text \<open>
  C4, as stated, fails for the handlers of the second service file: the whole buffer has
  been passed to \<open>socket.write\<close> when the timeout fires, and the delivery is rejected.
\<close>

theorem sendToPrinter_part004_timeout_rejects:
  "wire (deliver (sendToPrinter_part004 (js ''localhost'') 9100 [0x1B, 0x40, 0x1D, 0x56, 0x00]) [Connect])
     = [0x1B, 0x40, 0x1D, 0x56, 0x00]
   \<and> promise (deliver (sendToPrinter_part004 (js ''localhost'') 9100 [0x1B, 0x40, 0x1D, 0x56, 0x00])
        [Connect, Timeout]) = Some (Reject (js ''Printer connection timeout''))"
  by (simp add: deliver_def new_delivery_def promise_def settle_defs)

text \<open>
  C4, amended. A timeout that fires while the delivery is pending decides it, whatever
  follows. With the handlers of \<open>src/services/embeddedPrinterService.ts\<close> the delivery
  succeeds if the callback of \<open>socket.write\<close> has reported the buffer written without
  error, and otherwise fails with the reason
  \<open>Printer connection timeout at <host>:<port>\<close>. With the handlers of the second
  service file it fails with the reason \<open>Printer connection timeout\<close> in either case.
\<close>

theorem timeout_outcome:
  "(\<not> isResolved (deliver (sendToPrinter host prt data) evs) \<longrightarrow>
      promise (deliver (sendToPrinter host prt data) (evs @ Timeout # evs')) =
        Some (if WriteCallback None \<in> set evs then Resolve else Reject (msg_timeout host prt)))
   \<and> (\<not> isResolved (deliver (sendToPrinter_part004 host prt data) evs) \<longrightarrow>
      promise (deliver (sendToPrinter_part004 host prt data) (evs @ Timeout # evs')) =
        Some (Reject (js ''Printer connection timeout'')))"
proof (intro conjI impI)
  let ?H = "sendToPrinter host prt data"
  assume u: "\<not> isResolved (deliver ?H evs)"
  have c: "calls (deliver ?H evs) = []"
    by (rule unsettled_no_calls [OF once_sendToPrinter u])
  have t: "isResolved (deliver ?H (evs @ [Timeout])) \<and>
           calls (deliver ?H (evs @ [Timeout])) =
             [if WriteCallback None \<in> set evs then Resolve else Reject (msg_timeout host prt)]"
    using timeout_sendToPrinter [OF u, of host prt data] c written_sendToPrinter [OF u]
    by (simp add: deliver_snoc)
  have "calls (deliver ?H ((evs @ [Timeout]) @ evs')) = calls (deliver ?H (evs @ [Timeout]))"
    using t kept_foldl [of ?H "deliver ?H (evs @ [Timeout])" evs', OF kept_sendToPrinter]
    by (simp add: deliver_def)
  with t show "promise (deliver ?H (evs @ Timeout # evs')) =
        Some (if WriteCallback None \<in> set evs then Resolve else Reject (msg_timeout host prt))"
    by (simp add: promise_def)
next
  let ?H = "sendToPrinter_part004 host prt data"
  assume u: "\<not> isResolved (deliver ?H evs)"
  have c: "calls (deliver ?H evs) = []"
    by (rule unsettled_no_calls [OF once_sendToPrinter_part004 u])
  have t: "isResolved (deliver ?H (evs @ [Timeout])) \<and>
           calls (deliver ?H (evs @ [Timeout])) = [Reject (js ''Printer connection timeout'')]"
    using timeout_sendToPrinter_part004 [OF u, of host prt data] c
    by (simp add: deliver_snoc)
  have "calls (deliver ?H ((evs @ [Timeout]) @ evs')) = calls (deliver ?H (evs @ [Timeout]))"
    using t kept_foldl [of ?H "deliver ?H (evs @ [Timeout])" evs', OF kept_sendToPrinter_part004]
    by (simp add: deliver_def)
  with t show "promise (deliver ?H (evs @ Timeout # evs')) =
        Some (Reject (js ''Printer connection timeout''))"
    by (simp add: promise_def)
qed

theorem timeout_outcome_witness:
  "\<not> isResolved (deliver (sendToPrinter (js ''localhost'') 9100 [0x1B, 0x40]) [Connect, WriteCallback None])
   \<and> promise (deliver (sendToPrinter (js ''localhost'') 9100 [0x1B, 0x40])
        ([Connect, WriteCallback None] @ Timeout # [TimerFired])) = Some Resolve
   \<and> \<not> isResolved (deliver (sendToPrinter (js ''localhost'') 9100 [0x1B, 0x40]) [])
   \<and> promise (deliver (sendToPrinter (js ''localhost'') 9100 [0x1B, 0x40]) ([] @ Timeout # [Close]))
       = Some (Reject (js ''Printer connection timeout at localhost:9100''))
   \<and> \<not> isResolved (deliver (sendToPrinter_part004 (js ''localhost'') 9100 [0x1B, 0x40]) [Connect])
   \<and> promise (deliver (sendToPrinter_part004 (js ''localhost'') 9100 [0x1B, 0x40])
        ([Connect] @ Timeout # [Close])) = Some (Reject (js ''Printer connection timeout''))"
proof -
  have m: "msg_timeout (js ''localhost'') 9100 = js ''Printer connection timeout at localhost:9100''"
    by (simp add: msg_timeout_def String_of_int_def js_def)
  have u1: "\<not> isResolved (deliver (sendToPrinter (js ''localhost'') 9100 [0x1B, 0x40]) [Connect, WriteCallback None])"
    and u2: "\<not> isResolved (deliver (sendToPrinter (js ''localhost'') 9100 [0x1B, 0x40]) [])"
    and u3: "\<not> isResolved (deliver (sendToPrinter_part004 (js ''localhost'') 9100 [0x1B, 0x40]) [Connect])"
    by (simp_all add: deliver_def new_delivery_def)
  show ?thesis
    using u1 u2 u3 m
      timeout_outcome [of "js ''localhost''" 9100 "[0x1B, 0x40]" "[Connect, WriteCallback None]" "[TimerFired]"]
      timeout_outcome [of "js ''localhost''" 9100 "[0x1B, 0x40]" "[]" "[Close]"]
      timeout_outcome [of "js ''localhost''" 9100 "[0x1B, 0x40]" "[Connect]" "[Close]"]
    by simp
qed



section \<open>Properties of the ticket formatters\<close>

lemma double_3: "Number_of_int 3 = Finite 3"
  using round_to_double_eq [of 1 3 "3 * 2 ^ 51"]
  by (simp add: Number_of_int_def pow2_def)

lemma double_15:
  assumes "x = 15"
  shows "round_to_double x = Finite 15"
  unfolding assms
  using round_to_double_eq [of 3 15 "15 * 2 ^ 49"]
  by (simp add: pow2_def)

lemma double_0_15:
  assumes "x = 15 / 100"
  shows "round_to_double x = Finite (5404319552844595 / 2 ^ 55)"
  unfolding assms
  using round_to_double_eq [of "- 3" "15 / 100" 5404319552844595]
  by (simp add: pow2_def)

lemma double_0_45:
  assumes "x = 5404319552844595 / 2 ^ 55 * 3"
  shows "round_to_double x = Finite (8106479329266892 / 2 ^ 54)"
  unfolding assms
  using round_to_double_eq [of "- 2" "5404319552844595 / 2 ^ 55 * 3" 8106479329266892]
  by (simp add: pow2_def)

lemma double_15_45:
  assumes "x = 1545 / 100"
  shows "round_to_double x = Finite (4348788390179635 / 2 ^ 48)"
  unfolding assms
  using round_to_double_eq [of 3 "1545 / 100" 8697576780359270]
  by (simp add: pow2_def)

lemmas doubles = double_3 double_15 double_0_15 double_0_45 double_15_45

lemma base_total: "js_times (Finite 5) (Number_of_int 3) = Finite 15"
  by (simp add: doubles)

lemma fee_total:
  "js_times (round_to_double (15 / 100)) (Number_of_int 3) = Finite (8106479329266892 / 2 ^ 54)"
  by (simp add: doubles)

lemma fixed_15: "toFixed ts 2 (Finite 15) = js ''15.00''"
  by (simp add: toFixed_def Let_def js_def)

lemma fixed_0_45:
  assumes "x = 8106479329266892 / 2 ^ 54"
  shows "toFixed ts 2 (Finite x) = js ''0.45''"
  unfolding assms
  by (simp add: toFixed_def Let_def js_def)

lemma fixed3_0_45:
  assumes "x = 8106479329266892 / 2 ^ 54"
  shows "toFixed ts 3 (Finite x) = js ''0.450''"
  unfolding assms
  by (simp add: toFixed_def Let_def js_def)

lemma fixed3_0_15:
  assumes "x = 5404319552844595 / 2 ^ 55"
  shows "toFixed ts 3 (Finite x) = js ''0.150''"
  unfolding assms
  by (simp add: toFixed_def Let_def js_def)

lemma fixed_5: "toFixed ts 2 (Finite 5) = js ''5.00''"
  by (simp add: toFixed_def Let_def js_def)

lemma fixed_15_45:
  assumes "x = 4348788390179635 / 2 ^ 48"
  shows "toFixed ts 2 (Finite x) = js ''15.45''"
  unfolding assms
  by (simp add: toFixed_def Let_def js_def)

lemma fixed3_15_45:
  assumes "x = 4348788390179635 / 2 ^ 48"
  shows "toFixed ts 3 (Finite x) = js ''15.450''"
  unfolding assms
  by (simp add: toFixed_def Let_def js_def)

lemma digits_of_range: "c \<in> set (digits_of n) \<Longrightarrow> 0x30 \<le> c \<and> c \<le> 0x39"
proof (induction n arbitrary: c rule: digits_of.induct)
  case (1 n)
  show ?case
  proof (cases "n < 10")
    case True
    then have "n \<in> {0,1,2,3,4,5,6,7,8,9}" by auto
    with 1(2) show ?thesis
      by (subst (asm) digits_of.simps) auto
  next
    case False
    have "n mod 10 \<in> {0,1,2,3,4,5,6,7,8,9}"
      using mod_less_divisor [of 10 n] by (auto simp del: mod_less_divisor)
    with 1 False show ?thesis
      by (subst (asm) (2) digits_of.simps) auto
  qed
qed

lemma digits_of_nonempty: "digits_of n \<noteq> []"
  by (subst digits_of.simps) simp

lemma no_stop_in_digits: "0x2E \<notin> set (digits_of n)"
  using digits_of_range [of "0x2E" n] by auto

lemma decimals_split:
  assumes "0x2E \<notin> set b"
  shows "decimals (a @ 0x2E # b) = Some (length b)"
proof -
  have "\<forall>x\<in>set (rev b). x \<noteq> 0x2E"
    using assms by auto
  then have "takeWhile (\<lambda>c. c \<noteq> 0x2E) (rev b @ 0x2E # rev a) = rev b"
    by (simp add: takeWhile_tail)
  then show ?thesis by (simp add: decimals_def)
qed

lemma toFixed_decimals:
  assumes "\<bar>r\<bar> < 10 ^ 21" "0 < f"
  shows "decimals (toFixed ts f (Finite r)) = Some f"
proof -
  define m where "m = digits_of (nat \<lfloor>\<bar>r\<bar> * 10 ^ f + 1 / 2\<rfloor>)"
  define m' where "m' = (if length m \<le> f then replicate (f + 1 - length m) 0x30 @ m else m)"
  define k where "k = (if length m \<le> f then f + 1 else length m)"
  define sign where "sign = (if r < 0 then js ''-'' else [])"
  have len: "length m' = k" "f < k"
    using digits_of_nonempty [of "nat \<lfloor>\<bar>r\<bar> * 10 ^ f + 1 / 2\<rfloor>"]
    by (auto simp: m'_def k_def m_def)
  have "0x2E \<notin> set m'"
    using no_stop_in_digits [of "nat \<lfloor>\<bar>r\<bar> * 10 ^ f + 1 / 2\<rfloor>"] by (auto simp: m'_def m_def)
  then have nostop: "0x2E \<notin> set (drop (k - f) m')"
    by (auto dest: in_set_dropD)
  have "toFixed ts f (Finite r) = (sign @ take (k - f) m') @ 0x2E # drop (k - f) m'"
    using assms by (simp add: toFixed_def Let_def m_def m'_def k_def js_def sign_def)
  also have "decimals \<dots> = Some (length (drop (k - f) m'))"
    using nostop by (rule decimals_split)
  also have "length (drop (k - f) m') = f"
    using len by simp
  finally show ?thesis .
qed


lemma double_sum:
  assumes "x = 15 + 8106479329266892 / 2 ^ 54"
  shows "round_to_double x = Finite (4348788390179635 / 2 ^ 48)"
  unfolding assms
  using round_to_double_eq [of 3 "15 + 8106479329266892 / 2 ^ 54" 8697576780359270]
  by (simp add: pow2_def)

lemmas fixeds = fixed_15 fixed_0_45 fixed3_0_45 fixed3_0_15 fixed_5 fixed_15_45 fixed3_15_45

lemmas ticket_defs = generateTicketContent_lines_def booking_lines_def
  generateTicketContent_lines_part004_def booking_lines_part004_def
  only_if_def if_number_def truthy_number_def truthy_string_def or_number_def number_or_def
  seatCount_of_def or_int_def number_fixed_def Let_def

text \<open>
  C2, amended. For a booking of three seats at base price 5.0 and station fee 0.15, with
  any payable total below \<open>10\<^sup>2\<^sup>1\<close> in magnitude: the formatter of
  \<open>src/services/embeddedPrinterService.ts\<close> prints the lines \<open>Prix base: 15.00 TND\<close>
  and \<open>Frais: 0.45 TND\<close> and renders the total, \<open>Total: ... TND\<close>, with exactly two
  decimal places; the formatter of the second service file prints
  \<open>Total billets: 15.00 TND\<close> and \<open>Total frais: 0.450 TND\<close> and renders the total,
  \<open>Montant TTC: ... TND\<close>, with exactly three (the computed sum when the supplied total
  is zero).
\<close>

theorem booking_example_line_items:
  assumes "seatNumber data = Some 3" "basePrice data = Some (Finite 5)"
    and "stationFee data = Some (round_to_double (15 / 100))"
    and "totalAmount data = Some (Finite t)" "\<bar>t\<bar> < 10 ^ 21"
  shows "generateTicketContent_lines h data Booking =
           Inr (ticket_header @ booking_lines h data (Finite t) @ ticket_footer)
    \<and> js ''Prix base: 15.00 TND'' \<in> set (booking_lines h data (Finite t))
    \<and> js ''Frais: 0.45 TND'' \<in> set (booking_lines h data (Finite t))
    \<and> js ''Total: '' @ number_fixed h 2 (Finite t) @ js '' TND'' \<in> set (booking_lines h data (Finite t))
    \<and> decimals (number_fixed h 2 (Finite t)) = Some 2
    \<and> generateTicketContent_lines_part004 h data Booking =
           Inr (header_part004 @ booking_lines_part004 h data @ staff_agent_line data @ [[], [], []])
    \<and> js ''Total billets: 15.00 TND'' \<in> set (booking_lines_part004 h data)
    \<and> js ''Total frais: 0.450 TND'' \<in> set (booking_lines_part004 h data)
    \<and> js ''Montant TTC: ''
          @ number_fixed h 3 (if t = 0 then Finite (4348788390179635 / 2 ^ 48) else Finite t)
          @ js '' TND'' \<in> set (booking_lines_part004 h data)
    \<and> decimals (number_fixed h 3 (if t = 0 then Finite (4348788390179635 / 2 ^ 48) else Finite t))
          = Some 3"
proof -
  have a: "js ''Prix base: 15.00 TND'' = js ''Prix base: '' @ js ''15.00'' @ js '' TND''"
    "js ''Frais: 0.45 TND'' = js ''Frais: '' @ js ''0.45'' @ js '' TND''"
    "js ''Total billets: 15.00 TND'' = js ''Total billets: '' @ js ''15.00'' @ js '' TND''"
    "js ''Total frais: 0.450 TND'' = js ''Total frais: '' @ js ''0.450'' @ js '' TND''"
    by (simp_all add: js_def)
  have d2: "decimals (number_fixed h 2 (Finite t)) = Some 2"
    using assms(5) by (simp add: number_fixed_def toFixed_decimals)
  have d3: "decimals (number_fixed h 3 (if t = 0 then Finite (4348788390179635 / 2 ^ 48) else Finite t))
          = Some 3"
    using assms(5) by (simp add: number_fixed_def toFixed_decimals)
  show ?thesis
    unfolding a using d2 d3
    by (simp add: assms(1-4) ticket_defs doubles double_sum fixeds)
qed


lemma example_total: "totalAmount example_booking = Some (Finite (4348788390179635 / 2 ^ 48))"
  by (simp add: example_booking_def double_15_45)

lemma civil_example: "civil_from_days 19737 = (2024, 1, 15)"
  by (simp only: civil_from_days_def Let_def) simp

lemma days_example: "days_from_civil 2024 1 15 = 19737"
  by (simp only: days_from_civil_def Let_def) simp

lemma parse_example:
  "utc_parse (js ''2024-01-15T10:30:00.000Z'') = TimeValue 1705314600000"
proof -
  have d: "parse_date (js ''2024-01-15T10:30:00.000Z'') = Some (19737, js ''T10:30:00.000Z'')"
    by (simp add: parse_date_def parse_year_def field_after_def digits_at_def is_digit_def
        decimal_value_def days_example js_def)
  have t: "parse_time (js ''10:30:00.000Z'') = Some (37800000, js ''Z'')"
    by (simp add: parse_time_def time_of_def field_after_def digits_at_def is_digit_def
        decimal_value_def js_def)
  have z: "parse_offset (js ''Z'') = Some 0"
    by (simp add: parse_offset_def js_def)
  have c: "js ''T10:30:00.000Z'' = 0x54 # js ''10:30:00.000Z''"
    by (simp add: js_def)
  show ?thesis
    by (simp add: utc_parse_def d c t z time_value_def)
qed

lemma example_date:
  "toLocaleDateString host_utc (new_Date host_utc (createdAt example_booking)) = js ''15/01/2024''"
  "toLocaleTimeString host_utc (new_Date host_utc (createdAt example_booking)) = js ''10:30''"
  by (simp_all add: example_booking_def host_utc_def new_Date_def parse_example
      utc_date_string_def utc_time_string_def civil_example two_digits_def String_of_int_def)
    (simp_all add: js_def)

theorem booking_example_line_items_witness:
  "seatNumber example_booking = Some 3 \<and> basePrice example_booking = Some (Finite 5)
   \<and> stationFee example_booking = Some (round_to_double (15 / 100))
   \<and> totalAmount example_booking = Some (Finite (4348788390179635 / 2 ^ 48))
   \<and> \<bar>4348788390179635 / 2 ^ 48 :: rat\<bar> < 10 ^ 21
   \<and> js ''Prix base: 15.00 TND'' \<in> set (booking_lines host_utc example_booking (Finite (4348788390179635 / 2 ^ 48)))
   \<and> js ''Total: 15.45 TND'' \<in> set (booking_lines host_utc example_booking (Finite (4348788390179635 / 2 ^ 48)))
   \<and> js ''Montant TTC: 15.450 TND'' \<in> set (booking_lines_part004 host_utc example_booking)"
proof -
  have h: "seatNumber example_booking = Some 3" "basePrice example_booking = Some (Finite 5)"
    "stationFee example_booking = Some (round_to_double (15 / 100))"
    by (simp_all add: example_booking_def)
  have b: "\<bar>4348788390179635 / 2 ^ 48 :: rat\<bar> < 10 ^ 21"
    by simp
  have t: "js ''Total: '' @ number_fixed host_utc 2 (Finite (4348788390179635 / 2 ^ 48)) @ js '' TND''
             = js ''Total: 15.45 TND''"
    "js ''Montant TTC: '' @ number_fixed host_utc 3 (Finite (4348788390179635 / 2 ^ 48)) @ js '' TND''
             = js ''Montant TTC: 15.450 TND''"
    by (simp_all add: number_fixed_def fixeds) (simp_all add: js_def)
  show ?thesis
    using h example_total b t booking_example_line_items [OF h example_total b, of host_utc]
    by simp
qed

text \<open>
  C2, as stated, fails for both formatters. For the example booking (total 15.45) the
  first prints the two line items and the total with two decimal places,
  \<open>Total: 15.45 TND\<close>; the second prints the total with three, but its line items are
  \<open>Total billets: 15.00 TND\<close> and \<open>Total frais: 0.450 TND\<close>.
\<close>

theorem booking_example_outputs:
  "generateTicketContent_lines host_utc example_booking Booking =
     Inr [js ''================================'',
          js ''  STE DHRAIFF SERVICES'',
          js ''     TRANSPORT'',
          js ''================================'',
          [],
          js ''     BILLET RESERVATION'',
          js ''================================'',
          js ''Vehicule: 123 TU 456'',
          js ''Destination: Monastir'',
          js ''Sieges: 3'',
          js ''--------------------------------'',
          js ''Prix base: 15.00 TND'',
          js ''Frais: 0.45 TND'',
          js ''Total: 15.45 TND'',
          js ''--------------------------------'',
          js ''Date: 15/01/2024'',
          js ''Heure: 10:30'',
          js ''Agent: Agent Test'',
          [],
          js ''================================'',
          js ''    Merci et bon voyage!'',
          js ''================================'',
          [], [], []]
   \<and> generateTicketContent_lines_part004 host_utc example_booking Booking =
     Inr [js ''================================'',
          js ''  STE DHRAIFF SERVICES'',
          js ''     TRANSPORT'',
          js ''================================'',
          [],
          js ''      BILLET CLIENT'',
          js ''--------------------------------'',
          js ''Destination: Monastir'',
          js ''Nombre de si'' @ [0xE8] @ js ''ges: 3'',
          js ''Prix par si'' @ [0xE8] @ js ''ge: 5.00 TND'',
          js ''Total billets: 15.00 TND'',
          js ''Frais station (0.150 TND x 3)'',
          js ''Total frais: 0.450 TND'',
          js ''--------------------------------'',
          js ''Montant TTC: 15.450 TND'',
          js ''Date: 15/01/2024 10:30'',
          js ''Agent: Agent Test'',
          js ''Bon voyage !'',
          [], [], []]"
proof -
  have e: "seatNumber example_booking = Some 3" "basePrice example_booking = Some (Finite 5)"
    "stationFee example_booking = Some (round_to_double (15 / 100))"
    "licensePlate example_booking = Some (js ''123 TU 456'')"
    "destinationName example_booking = Some (js ''Monastir'')"
    "createdBy example_booking = Some (js ''Agent Test'')"
    "staffFirstName example_booking = None"
    by (simp_all add: example_booking_def)
  have n: "js ''123 TU 456'' \<noteq> []" "js ''Monastir'' \<noteq> []" "js ''Agent Test'' \<noteq> []"
    by (simp_all add: js_def)
  have l: "generateTicketContent_lines host_utc example_booking Booking =
     Inr (ticket_header @ 
         [js ''     BILLET RESERVATION'',
          js ''================================'',
          js ''Vehicule: '' @ js ''123 TU 456'',
          js ''Destination: '' @ js ''Monastir'',
          js ''Sieges: '' @ js ''3'',
          js ''--------------------------------'',
          js ''Prix base: '' @ js ''15.00'' @ js '' TND'',
          js ''Frais: '' @  js ''0.45'' @ js '' TND'',
          js ''Total: '' @ js ''15.45'' @ js '' TND'',
          js ''--------------------------------'',
          js ''Date: '' @ js ''15/01/2024'',
          js ''Heure: '' @ js ''10:30'',
          js ''Agent: '' @ js ''Agent Test''] @ ticket_footer)"
    by (simp add: ticket_defs e n example_total example_date doubles fixeds or_string_def
        template_string_def String_of_int_def) (simp add: js_def)
  have r: "generateTicketContent_lines_part004 host_utc example_booking Booking =
     Inr (header_part004 @
         [[],
          js ''      BILLET CLIENT'',
          js ''--------------------------------'',
          js ''Destination: '' @ js ''Monastir'',
          (js ''Nombre de si'' @ [0xE8] @ js ''ges: '') @ js ''3'',
          (js ''Prix par si'' @ [0xE8] @ js ''ge: '') @ js ''5.00'' @ js '' TND'',
          js ''Total billets: '' @ js ''15.00'' @ js '' TND'',
          js ''Frais station ('' @ js ''0.150'' @ js '' TND x '' @ js ''3'' @ js '')'',
          js ''Total frais: '' @ js ''0.450'' @ js '' TND'',
          js ''--------------------------------'',
          js ''Montant TTC: '' @ js ''15.450'' @ js '' TND'',
          js ''Date: '' @ js ''15/01/2024'' @ js '' '' @ js ''10:30'',
          js ''Agent: '' @ js ''Agent Test'',
          js ''Bon voyage !''] @ [[], [], []])"
    by (simp add: ticket_defs e n example_total example_date doubles fixeds or_string_def
        template_string_def String_of_int_def staff_agent_line_def) (simp add: js_def)
  show ?thesis
    unfolding l r by (simp add: ticket_header_def ticket_footer_def header_part004_def js_def)
qed


lemma round_to_double_0 [simp]: "round_to_double 0 = Finite 0"
  by (simp add: round_to_double_def)

lemma double_0: "x = 0 \<Longrightarrow> Number_of_int x = Finite 0"
  by (simp add: Number_of_int_def)

lemma fixed_0: "toFixed ts 2 (Finite 0) = js ''0.00''"
  by (simp add: toFixed_def Let_def js_def)

lemma js_append: "js (a @ b) = js a @ js b"
  by (simp add: js_def)

lemma seatCount_of_cases:
  "seatCount_of None = 1"
  "n \<le> 0 \<Longrightarrow> seatCount_of (Some n) = 1"
  "0 < n \<Longrightarrow> seatCount_of (Some n) = n"
  by (simp_all add: seatCount_of_def or_int_def)

lemma Sieges_prefix [simp]:
  "prefix (js ''Sieges: '') (js ''Sieges: '' @ x)"
  "\<not> prefix (js ''Sieges: '') (js ''     BILLET RESERVATION'')"
  "\<not> prefix (js ''Sieges: '') (js ''================================'')"
  "\<not> prefix (js ''Sieges: '') (js ''--------------------------------'')"
  "\<not> prefix (js ''Sieges: '') (js ''Vehicule: '' @ x)"
  "\<not> prefix (js ''Sieges: '') (js ''Destination: '' @ x)"
  "\<not> prefix (js ''Sieges: '') (js ''Prix base: '' @ x)"
  "\<not> prefix (js ''Sieges: '') (js ''Frais: '' @ x)"
  "\<not> prefix (js ''Sieges: '') (js ''Total: '' @ x)"
  "\<not> prefix (js ''Sieges: '') (js ''Date: '' @ x)"
  "\<not> prefix (js ''Sieges: '') (js ''Heure: '' @ x)"
  "\<not> prefix (js ''Sieges: '') (js ''Agent: '' @ x)"
  "\<not> prefix (js ''Sieges: '') (js ''      PASS JOURNEE'')"
  "\<not> prefix (js ''Sieges: '') (js ''Route: '' @ x)"
  "\<not> prefix (js ''Sieges: '') (js ''Montant: '' @ x)"
  "\<not> prefix (js ''Sieges: '') (js ''   Valide toute la journee'')"
  by (simp_all add: js_def)

text \<open>The booking ticket of \<open>src/services/embeddedPrinterService.ts\<close> has one line that
  begins \<open>Sieges: \<close>, and it carries the seat count with the default applied.\<close>

lemma booking_seat_line:
  "filter (prefix (js ''Sieges: '')) (booking_lines h data amount) =
     [js ''Sieges: '' @ String_of_int (seatCount_of (seatNumber data))]"
  by (simp add: booking_lines_def Let_def only_if_def if_number_def split: option.splits)

text \<open>The day pass has no such line and does not read the seat count.\<close>

lemma daypass_no_seat_line:
  "filter (prefix (js ''Sieges: '')) (daypass_lines h data amount) = []"
  "daypass_lines h (data\<lparr>seatNumber := n\<rparr>) amount = daypass_lines h data amount"
  by (simp_all add: daypass_lines_def Let_def only_if_def)

text \<open>
  C8. The booking of \<open>src/services/embeddedPrinterService.ts\<close> prints
  \<open>Math.max(1, data.seatNumber || 1)\<close>, as the claim says (\<open>booking_seat_line\<close>,
  \<open>seatCount_of_cases\<close>), and its day pass prints no seat line and does not read the
  seat count (\<open>daypass_no_seat_line\<close>). The booking of the service in
  \<open>electron/main.ts\<close> prints \<open>data.seatNumber\<close> as it is: for the example booking with
  a seat count of 0 it prints \<open>Sieges: 0\<close> and prices of 0.00, and with the seat count
  absent \<open>Sieges: undefined\<close>, where the other service prints \<open>Sieges: 1\<close>.
\<close>

theorem booking_electron_seat_zero:
  "generateTicketContent_lines_electron host_utc (example_booking\<lparr>seatNumber := Some 0\<rparr>) Booking =
     Inr [js ''================================'',
          js ''  STE DHRAIFF SERVICES'',
          js ''     TRANSPORT'',
          js ''================================'',
          [],
          js ''     BILLET RESERVATION'',
          js ''================================'',
          js ''Vehicule: 123 TU 456'',
          js ''Destination: Monastir'',
          js ''Sieges: 0'',
          js ''--------------------------------'',
          js ''Prix base: 0.00 TND'',
          js ''Frais: 0.00 TND'',
          js ''Total: 15.45 TND'',
          js ''--------------------------------'',
          js ''Date: 15/01/2024'',
          js ''Heure: 10:30'',
          js ''Agent: Agent Test'',
          [],
          js ''================================'',
          js ''    Merci et bon voyage!'',
          js ''================================'',
          [], [], []]
   \<and> filter (prefix (js ''Sieges: ''))
        (booking_lines_electron host_utc (example_booking\<lparr>seatNumber := None\<rparr>) (Finite 15))
       = [js ''Sieges: undefined'']
   \<and> filter (prefix (js ''Sieges: ''))
        (booking_lines host_utc (example_booking\<lparr>seatNumber := Some 0\<rparr>) (Finite 15))
       = [js ''Sieges: 1'']"
proof -
  let ?d = "example_booking\<lparr>seatNumber := Some 0\<rparr>"
  have e: "seatNumber ?d = Some 0" "basePrice ?d = Some (Finite 5)"
    "stationFee ?d = Some (round_to_double (15 / 100))"
    "licensePlate ?d = Some (js ''123 TU 456'')"
    "destinationName ?d = Some (js ''Monastir'')"
    "createdBy ?d = Some (js ''Agent Test'')"
    "createdAt ?d = createdAt example_booking"
    "totalAmount ?d = totalAmount example_booking"
    by (simp_all add: example_booking_def)
  have n: "js ''123 TU 456'' \<noteq> []" "js ''Monastir'' \<noteq> []" "js ''Agent Test'' \<noteq> []"
    by (simp_all add: js_def)
  have l: "generateTicketContent_lines_electron host_utc ?d Booking =
     Inr (ticket_header @
         [js ''     BILLET RESERVATION'',
          js ''================================'',
          js ''Vehicule: '' @ js ''123 TU 456'',
          js ''Destination: '' @ js ''Monastir'',
          js ''Sieges: '' @ js ''0'',
          js ''--------------------------------'',
          js ''Prix base: '' @ js ''0.00'' @ js '' TND'',
          js ''Frais: '' @  js ''0.00'' @ js '' TND'',
          js ''Total: '' @ js ''15.45'' @ js '' TND'',
          js ''--------------------------------'',
          js ''Date: '' @ js ''15/01/2024'',
          js ''Heure: '' @ js ''10:30'',
          js ''Agent: '' @ js ''Agent Test''] @ ticket_footer)"
    by (simp add: generateTicketContent_lines_electron_def booking_lines_electron_def ticket_defs
        e n example_total example_date doubles double_0 fixeds fixed_0 template_string_def
        template_int_def Number_of_int_opt_def String_of_int_def) (simp add: js_def)
  have u: "filter (prefix (js ''Sieges: ''))
        (booking_lines_electron host_utc (example_booking\<lparr>seatNumber := None\<rparr>) (Finite 15))
       = [js ''Sieges: '' @ js ''undefined'']"
    by (simp add: booking_lines_electron_def Let_def only_if_def if_number_def template_int_def
        split: option.splits)
  have a: "filter (prefix (js ''Sieges: ''))
        (booking_lines host_utc (example_booking\<lparr>seatNumber := Some 0\<rparr>) (Finite 15))
       = [js ''Sieges: '' @ js ''1'']"
    unfolding booking_seat_line by (simp add: seatCount_of_cases String_of_int_def js_def)
  show ?thesis
    unfolding l u a by (simp add: ticket_header_def ticket_footer_def js_def)
qed



section \<open>Properties of the control facade\<close>

lemma run_service_snoc: "run_service h (evs @ [ev]) = service_step h (run_service h evs) ev"
  by (simp add: run_service_def)

lemma methods_differ [simp]:
  "js ''PUT'' \<noteq> js ''GET''" "js ''PUT'' \<noteq> js ''OPTIONS''" "js ''GET'' \<noteq> js ''OPTIONS''"
  "js ''POST'' \<noteq> js ''OPTIONS''" "js ''POST'' \<noteq> js ''GET''" "js ''POST'' \<noteq> js ''PUT''"
  by (simp_all add: js_def)

lemma not_health [simp]:
  "prefix (js ''/api/printer/config/'') p \<Longrightarrow> p \<noteq> js ''/health''"
  by (auto simp: js_def)

lemma handleRequest_get_config:
  "prefix (js ''/api/printer/config/'') (pathname req) \<Longrightarrow> req_method req = js ''GET'' \<Longrightarrow>
   handleRequest h clock req = Inl (200, ConfigJson getDefaultConfig)"
  by (simp add: handleRequest_def handleRoutes_def)

lemma handleRequest_put_config:
  "prefix (js ''/api/printer/config/'') (pathname req) \<Longrightarrow> req_method req = js ''PUT'' \<Longrightarrow>
   handleRequest h clock req =
     Inl (200, Message (js ''printer configuration updated successfully''))"
  by (simp add: handleRequest_def handleRoutes_def)

text \<open>A request whose number has not been used is neither pending nor answered.\<close>

lemma untouched_step:
  "event_id ev \<noteq> j \<Longrightarrow>
   awaiting (service_step h s ev) j = awaiting s j \<and> answered (service_step h s ev) j = answered s j"
  by (cases ev)
     (auto simp: event_id_def respond_def Let_def
           split: sum.splits job.splits option.splits pending.splits socket_event.splits prod.splits)

lemma fresh_run:
  "j \<notin> event_id ` set evs \<Longrightarrow>
   awaiting (run_service h evs) j = None \<and> answered (run_service h evs) j = None"
proof (induction evs rule: rev_induct)
  case Nil
  show ?case by (simp add: run_service_def new_service_def)
next
  case (snoc ev evs)
  then show ?case
    using untouched_step [of ev j h "run_service h evs"] by (simp add: run_service_snoc)
qed

text \<open>A sequence of configuration updates leaves nothing pending, and each is answered
  with the success message.\<close>

lemma put_step:
  assumes "is_put_config ev" "awaiting s = (\<lambda>i. None)"
  shows "awaiting (service_step h s ev) = (\<lambda>i. None)"
    and "answered s i \<noteq> None \<Longrightarrow> answered (service_step h s ev) i = answered s i"
    and "answered s (event_id ev) = None \<Longrightarrow>
         answered (service_step h s ev) (event_id ev) =
           Some (200, Message (js ''printer configuration updated successfully''))"
  using assms
  by (cases ev; auto simp: is_put_config_def event_id_def respond_def handleRequest_put_config
        fun_eq_iff split: option.splits)+

lemma puts_run:
  assumes "\<forall>ev\<in>set evs. is_put_config ev"
  shows "awaiting (run_service h evs) = (\<lambda>i. None)
    \<and> (\<forall>ev\<in>set evs. answered (run_service h evs) (event_id ev) =
           Some (200, Message (js ''printer configuration updated successfully'')))"
  using assms
proof (induction evs rule: rev_induct)
  case Nil
  show ?case by (simp add: run_service_def new_service_def)
next
  case (snoc ev evs)
  let ?s = "run_service h evs"
  have p: "is_put_config ev" and a: "awaiting ?s = (\<lambda>i. None)"
    and b: "\<forall>e\<in>set evs. answered ?s (event_id e) =
           Some (200, Message (js ''printer configuration updated successfully''))"
    using snoc by simp_all
  have 1: "awaiting (service_step h ?s ev) = (\<lambda>i. None)"
    using put_step(1) [OF p a] .
  have 2: "answered (service_step h ?s ev) (event_id e) =
           Some (200, Message (js ''printer configuration updated successfully''))"
    if "e \<in> set evs" for e
    using put_step(2) [OF p a, of "event_id e" h] b that by simp
  have 3: "answered (service_step h ?s ev) (event_id ev) =
           Some (200, Message (js ''printer configuration updated successfully''))"
  proof (cases "answered ?s (event_id ev)")
    case None
    then show ?thesis using put_step(3) [OF p a, of h] by simp
  next
    case (Some r)
    have "\<exists>e\<in>set evs. event_id e = event_id ev"
    proof (rule ccontr)
      assume "\<not> (\<exists>e\<in>set evs. event_id e = event_id ev)"
      then have "event_id ev \<notin> event_id ` set evs" by auto
      from fresh_run [OF this, of h] Some show False by simp
    qed
    then obtain e where "e \<in> set evs" "event_id e = event_id ev" by blast
    with 2 [of e] show ?thesis by simp
  qed
  show ?case
    using 1 2 3 by (auto simp: run_service_snoc)
qed

text \<open>
  C9. After any sequence of \<open>PUT /api/printer/config/...\<close> requests, whatever their
  bodies, a \<open>GET /api/printer/config/{id}\<close> is answered with status 200 and the fixed
  default configuration (ip \<open>localhost\<close>, port 9100, width 48, timeout 5000). Each
  \<open>PUT\<close> was answered with the success message, and the service holds nothing else
  afterwards: there is no field a submitted endpoint could be stored in.
\<close>

theorem get_config_after_puts:
  assumes "\<forall>ev\<in>set evs. is_put_config ev"
    and "j \<notin> event_id ` set evs"
    and "prefix (js ''/api/printer/config/'') path"
  shows "answered (run_service h
            (evs @ [Request j clock \<lparr>req_method = js ''GET'', pathname = path, body = b\<rparr>])) j
           = Some (200, ConfigJson getDefaultConfig)
    \<and> ip getDefaultConfig = js ''localhost'' \<and> port getDefaultConfig = 9100
    \<and> width getDefaultConfig = 48 \<and> timeout getDefaultConfig = 5000
    \<and> awaiting (run_service h evs) = (\<lambda>i. None)
    \<and> (\<forall>ev\<in>set evs. answered (run_service h evs) (event_id ev) =
           Some (200, Message (js ''printer configuration updated successfully'')))"
proof -
  let ?get = "\<lparr>req_method = js ''GET'', pathname = path, body = b\<rparr>"
  have f: "awaiting (run_service h evs) j = None" "answered (run_service h evs) j = None"
    using fresh_run [OF assms(2), of h] by simp_all
  have g: "handleRequest h clock ?get = Inl (200, ConfigJson getDefaultConfig)"
    using assms(3) by (simp add: handleRequest_get_config)
  have "answered (service_step h (run_service h evs) (Request j clock ?get)) j
          = Some (200, ConfigJson getDefaultConfig)"
    using f g by (simp add: respond_def)
  then show ?thesis
    using puts_run [OF assms(1), of h] by (simp add: run_service_snoc getDefaultConfig_def)
qed

theorem get_config_after_puts_witness:
  "is_put_config (Request 1 (TimeValue 0)
        \<lparr>req_method = js ''PUT'', pathname = js ''/api/printer/config/printer1'', body = Unparsable\<rparr>)
   \<and> is_put_config (Request 2 (TimeValue 5)
        \<lparr>req_method = js ''PUT'', pathname = js ''/api/printer/config/printer1'',
          body = TicketJson example_booking\<rparr>)
   \<and> prefix (js ''/api/printer/config/'') (js ''/api/printer/config/printer1'')
   \<and> answered (run_service host_utc
        ([Request 1 (TimeValue 0)
            \<lparr>req_method = js ''PUT'', pathname = js ''/api/printer/config/printer1'', body = Unparsable\<rparr>,
          Request 2 (TimeValue 5)
            \<lparr>req_method = js ''PUT'', pathname = js ''/api/printer/config/printer1'',
              body = TicketJson example_booking\<rparr>]
         @ [Request 3 (TimeValue 9)
            \<lparr>req_method = js ''GET'', pathname = js ''/api/printer/config/printer1'', body = Unparsable\<rparr>])) 3
       = Some (200, ConfigJson getDefaultConfig)"
proof -
  let ?evs = "[Request 1 (TimeValue 0)
        \<lparr>req_method = js ''PUT'', pathname = js ''/api/printer/config/printer1'', body = Unparsable\<rparr>,
      Request 2 (TimeValue 5)
        \<lparr>req_method = js ''PUT'', pathname = js ''/api/printer/config/printer1'',
          body = TicketJson example_booking\<rparr>]"
  have p: "prefix (js ''/api/printer/config/'') (js ''/api/printer/config/printer1'')"
    by (simp add: js_def)
  have a: "\<forall>ev\<in>set ?evs. is_put_config ev"
    using p by (simp add: is_put_config_def)
  have i: "3 \<notin> event_id ` set ?evs"
    by (simp add: event_id_def)
  show ?thesis
    using a p get_config_after_puts [OF a i p, of host_utc "TimeValue 9" Unparsable] by simp
qed



subsection \<open>Print requests are started as they arrive\<close>

lemma convertToESCPOS_nonempty: "convertToESCPOS content \<noteq> []"
  by (simp add: convertToESCPOS_def)

lemma handleRequest_print_booking:
  assumes "req_method req = js ''POST''" "pathname req = js ''/api/printer/print/booking''"
    and "body req = TicketJson t" "totalAmount t = Some a"
  shows "handleRequest h clock req =
     Inr (Deliver (case printerConfig t of Some c \<Rightarrow> c
                   | None \<Rightarrow> PrinterIpConfig.truncate getDefaultConfig)
            (convertToESCPOS (join LF (ticket_header @ booking_lines h t a @ ticket_footer)))
            (js ''booking ticket printed successfully''))"
proof -
  have r: "js ''/api/printer/print/booking'' \<noteq> js ''/health''"
    "\<not> prefix (js ''/api/printer/config/'') (js ''/api/printer/print/booking'')"
    "\<not> prefix (js ''/api/printer/test/'') (js ''/api/printer/print/booking'')"
    by (simp_all add: js_def)
  have "printTicket h t Booking =
     Inr (case printerConfig t of Some c \<Rightarrow> c | None \<Rightarrow> PrinterIpConfig.truncate getDefaultConfig,
          convertToESCPOS (join LF (ticket_header @ booking_lines h t a @ ticket_footer)))"
    using assms(4)
    by (simp add: printTicket_def generateTicketContent_def generateTicketContent_lines_def Let_def)
  then show ?thesis
    using assms(1-3) r
    by (simp add: handleRequest_def handleRoutes_def print_route_def as_TicketData_def)
qed

lemma handleRequest_example:
  "handleRequest host_utc clock booking_request =
     Inr (Deliver \<lparr>ip = js ''localhost'', port = 9100\<rparr> example_buffer
            (js ''booking ticket printed successfully''))"
  using handleRequest_print_booking
    [of booking_request example_booking "Finite (4348788390179635 / 2 ^ 48)" host_utc clock]
    example_total
  by (simp add: booking_request_def example_buffer_def) (simp add: example_booking_def)

lemma example_buffer_nonempty: "example_buffer \<noteq> []"
  by (simp add: example_buffer_def convertToESCPOS_nonempty)

text \<open>
  C3, as stated, fails: the service has no queue. Two booking requests for the endpoint
  localhost:9100 arrive, then both sockets connect; afterwards both deliveries are
  pending, the first is not finished and has no answer, and the second has already
  written its whole buffer to its own connection.
\<close>

theorem two_deliveries_at_once:
  "endpoint_of (run_service host_utc
      [Request 1 (TimeValue 0) booking_request, Request 2 (TimeValue 0) booking_request,
       Socket 1 Connect, Socket 2 Connect]) 1 = Some \<lparr>ip = js ''localhost'', port = 9100\<rparr>
   \<and> endpoint_of (run_service host_utc
      [Request 1 (TimeValue 0) booking_request, Request 2 (TimeValue 0) booking_request,
       Socket 1 Connect, Socket 2 Connect]) 2 = Some \<lparr>ip = js ''localhost'', port = 9100\<rparr>
   \<and> map_option promise (delivery_of (run_service host_utc
      [Request 1 (TimeValue 0) booking_request, Request 2 (TimeValue 0) booking_request,
       Socket 1 Connect, Socket 2 Connect]) 1) = Some None
   \<and> answered (run_service host_utc
      [Request 1 (TimeValue 0) booking_request, Request 2 (TimeValue 0) booking_request,
       Socket 1 Connect, Socket 2 Connect]) 1 = None
   \<and> map_option wire (delivery_of (run_service host_utc
      [Request 1 (TimeValue 0) booking_request, Request 2 (TimeValue 0) booking_request,
       Socket 1 Connect, Socket 2 Connect]) 2) = Some example_buffer
   \<and> example_buffer \<noteq> []"
proof -
  have s: "run_service host_utc
      [Request 1 (TimeValue 0) booking_request, Request 2 (TimeValue 0) booking_request,
       Socket 1 Connect, Socket 2 Connect] =
       \<lparr>awaiting = (\<lambda>i. None)
           (1 \<mapsto> Delivering \<lparr>ip = js ''localhost'', port = 9100\<rparr> example_buffer
                   (js ''booking ticket printed successfully'')
                   (new_delivery\<lparr>wire := example_buffer\<rparr>),
            2 \<mapsto> Delivering \<lparr>ip = js ''localhost'', port = 9100\<rparr> example_buffer
                   (js ''booking ticket printed successfully'')
                   (new_delivery\<lparr>wire := example_buffer\<rparr>)),
         answered = (\<lambda>i. None)\<rparr>"
    by (simp add: run_service_def new_service_def handleRequest_example Let_def promise_def
        new_delivery_def fun_eq_iff)
  show ?thesis
    unfolding s
    by (simp add: endpoint_of_def delivery_of_def promise_def new_delivery_def
        example_buffer_nonempty)
qed

text \<open>
  C3, amended. A print request starts its delivery when it is handled, whatever the
  service holds at that moment, also a pending delivery to the same endpoint: the
  request becomes pending with a new socket of its own, and no other request is touched.
  A socket event advances the request it belongs to and no other, and on \<open>connect\<close> a
  delivery writes its own buffer to its own connection. Nothing orders or delays
  deliveries by endpoint.
\<close>

theorem print_requests_not_serialised:
  assumes "awaiting s j = None" "answered s j = None"
    and "handleRequest h clock req = Inr (Deliver config escPosData done)"
  shows "awaiting (service_step h s (Request j clock req)) j =
           Some (Delivering config escPosData done new_delivery)
    \<and> (\<forall>i. i \<noteq> j \<longrightarrow>
          awaiting (service_step h s (Request j clock req)) i = awaiting s i
          \<and> answered (service_step h s (Request j clock req)) i = answered s i)
    \<and> (\<forall>i ev. i \<noteq> k \<longrightarrow>
          awaiting (service_step h s (Socket k ev)) i = awaiting s i
          \<and> answered (service_step h s (Socket k ev)) i = answered s i)
    \<and> (\<forall>d. awaiting s k = Some (Delivering config escPosData done d) \<longrightarrow>
          delivery_of (service_step h s (Socket k Connect)) k
            = Some (d\<lparr>wire := wire d @ escPosData\<rparr>))"
proof (intro conjI allI impI)
  show "awaiting (service_step h s (Request j clock req)) j =
           Some (Delivering config escPosData done new_delivery)"
    using assms by simp
next
  fix i assume "i \<noteq> j"
  then show "awaiting (service_step h s (Request j clock req)) i = awaiting s i"
    and "answered (service_step h s (Request j clock req)) i = answered s i"
    using untouched_step [of "Request j clock req" i h s] by (simp_all add: event_id_def)
next
  fix i ev assume "i \<noteq> k"
  then show "awaiting (service_step h s (Socket k ev)) i = awaiting s i"
    and "answered (service_step h s (Socket k ev)) i = answered s i"
    using untouched_step [of "Socket k ev" i h s] by (simp_all add: event_id_def)
next
  fix d assume "awaiting s k = Some (Delivering config escPosData done d)"
  then show "delivery_of (service_step h s (Socket k Connect)) k
               = Some (d\<lparr>wire := wire d @ escPosData\<rparr>)"
    by (simp add: delivery_of_def Let_def promise_def split: list.splits)
qed

theorem print_requests_not_serialised_witness:
  "awaiting (run_service host_utc [Request 1 (TimeValue 0) booking_request, Socket 1 Connect]) 2 = None
   \<and> answered (run_service host_utc [Request 1 (TimeValue 0) booking_request, Socket 1 Connect]) 2 = None
   \<and> handleRequest host_utc (TimeValue 7) booking_request =
       Inr (Deliver \<lparr>ip = js ''localhost'', port = 9100\<rparr> example_buffer
              (js ''booking ticket printed successfully''))
   \<and> endpoint_of (run_service host_utc [Request 1 (TimeValue 0) booking_request, Socket 1 Connect]) 1
       = Some \<lparr>ip = js ''localhost'', port = 9100\<rparr>
   \<and> awaiting (service_step host_utc
        (run_service host_utc [Request 1 (TimeValue 0) booking_request, Socket 1 Connect])
        (Request 2 (TimeValue 7) booking_request)) 2
       = Some (Delivering \<lparr>ip = js ''localhost'', port = 9100\<rparr> example_buffer
                (js ''booking ticket printed successfully'') new_delivery)"
proof -
  let ?s = "run_service host_utc [Request 1 (TimeValue 0) booking_request, Socket 1 Connect]"
  have f: "awaiting ?s 2 = None" "answered ?s 2 = None"
    using fresh_run [of 2 "[Request 1 (TimeValue 0) booking_request, Socket 1 Connect]" host_utc]
    by (simp_all add: event_id_def)
  have e: "endpoint_of ?s 1 = Some \<lparr>ip = js ''localhost'', port = 9100\<rparr>"
    by (simp add: run_service_def new_service_def handleRequest_example Let_def promise_def
        new_delivery_def endpoint_of_def)
  show ?thesis
    using f e handleRequest_example [of "TimeValue 7"]
      print_requests_not_serialised [OF f handleRequest_example [of "TimeValue 7"]]
    by simp
qed


subsection \<open>Format, then encode, and the clock\<close>













end
